theory Spec2Isabelle
  imports Complex_Main "HOL-Library.Monad_Syntax" "HOL-Library.Word"
begin

section \<open>Three-valued logic\<close>

text \<open>
  The enabledness flag of a tree node is a \<^verbatim>\<open>tribool\<close>.  Its header is not among the
  source files; the operations below are the ones \<^verbatim>\<open>grid_set.cc\<close> applies to it.
\<close>

datatype tribool = true_value | false_value | indeterminate_value

text \<open>
  Modelled from the spec: the tribool header is missing.  "Three-valued logic value
  {definitely-true, possibly, definitely-false} with standard short-circuit conjunction
  and disjunction."  \<open>definitely\<close> holds of the true value only, \<open>possibly\<close> of everything
  but the false value; a tribool used as a condition (or converted to \<^verbatim>\<open>bool\<close>) counts as
  true only when it is definitely true.
\<close>

definition definitely :: "tribool \<Rightarrow> bool" where
  "definitely t = (t = true_value)"

definition possibly :: "tribool \<Rightarrow> bool" where
  "possibly t = (t \<noteq> false_value)"

definition indeterminate :: "tribool \<Rightarrow> bool" where
  "indeterminate t = (t = indeterminate_value)"

definition tribool_of_bool :: "bool \<Rightarrow> tribool" where
  "tribool_of_bool b = (if b then true_value else false_value)"

text \<open>Modelled from the spec: the missing tribool header; \<^verbatim>\<open>operator&&\<close>.\<close>

fun tribool_and :: "tribool \<Rightarrow> tribool \<Rightarrow> tribool" where
  "tribool_and false_value _ = false_value"
| "tribool_and _ false_value = false_value"
| "tribool_and true_value true_value = true_value"
| "tribool_and _ _ = indeterminate_value"

text \<open>Modelled from the spec: the missing tribool header; \<^verbatim>\<open>operator!\<close>.\<close>

fun tribool_not :: "tribool \<Rightarrow> tribool" where
  "tribool_not true_value = false_value"
| "tribool_not false_value = true_value"
| "tribool_not indeterminate_value = indeterminate_value"

text \<open>
  Modelled from the spec: the missing tribool header; \<^verbatim>\<open>operator==\<close>.  Comparing with an
  indeterminate value is itself indeterminate, which is why \<^verbatim>\<open>BinaryTreeNode::operator==\<close>
  has a disjunct of its own for two indeterminate flags.
\<close>

fun tribool_eq :: "tribool \<Rightarrow> tribool \<Rightarrow> tribool" where
  "tribool_eq indeterminate_value _ = indeterminate_value"
| "tribool_eq _ indeterminate_value = indeterminate_value"
| "tribool_eq a b = tribool_of_bool (a = b)"

section \<open>Binary tree nodes\<close>

text \<open>
  A \<^verbatim>\<open>BinaryTreeNode\<close> has the fields \<^verbatim>\<open>_isEnabled\<close>, \<^verbatim>\<open>_pLeftNode\<close> and \<^verbatim>\<open>_pRightNode\<close>.
  Every place of the source that creates children creates both, so a node is either a leaf
  (both pointers null) or has two subtrees.  The flag is kept on both kinds of node: the
  source reads and compares it on internal nodes too.
\<close>

datatype BinaryTreeNode =
    Leaf tribool
  | Node tribool BinaryTreeNode BinaryTreeNode

fun isEnabled :: "BinaryTreeNode \<Rightarrow> tribool" where
  "isEnabled (Leaf e) = e"
| "isEnabled (Node e l r) = e"

fun is_leaf :: "BinaryTreeNode \<Rightarrow> bool" where
  "is_leaf (Leaf e) = True"
| "is_leaf (Node e l r) = False"

text \<open>
  Modelled from the spec: the inline members of the missing header \<^verbatim>\<open>grid_set.h\<close>.
  \<open>is_enabled\<close> and \<open>is_disabled\<close> read the flag only ("a non-leaf node can not be
  enabled so this check suffices", as the callers put it).
\<close>

definition is_enabled :: "BinaryTreeNode \<Rightarrow> bool" where
  "is_enabled n = definitely (isEnabled n)"

definition is_disabled :: "BinaryTreeNode \<Rightarrow> bool" where
  "is_disabled n = (\<not> possibly (isEnabled n))"

text \<open>
  Modelled from the spec: "split: if leaf, replace self with an internal node whose two
  children are leaves carrying self's previous enabledness; no-op on internal nodes", the
  internal node's "own enabledness flag is kept as indeterminate".
\<close>

fun split :: "BinaryTreeNode \<Rightarrow> BinaryTreeNode" where
  "split (Leaf e) = Node indeterminate_value (Leaf e) (Leaf e)"
| "split (Node e l r) = Node e l r"

text \<open>
  Modelled from the spec: "make_leaf(b): deallocate subtrees, become a leaf with
  enabledness b."
\<close>

definition make_leaf :: "BinaryTreeNode \<Rightarrow> tribool \<Rightarrow> BinaryTreeNode" where
  "make_leaf n b = Leaf b"

text \<open>
  Modelled from the spec: \<^verbatim>\<open>copy_from\<close> of the missing header makes this node a deep copy
  of the other one ("copy is a deep copy").
\<close>

definition copy_from :: "BinaryTreeNode \<Rightarrow> BinaryTreeNode \<Rightarrow> BinaryTreeNode" where
  "copy_from n other = other"

fun has_enabled :: "BinaryTreeNode \<Rightarrow> bool" where
  "has_enabled (Leaf e) = is_enabled (Leaf e)"
| "has_enabled (Node e l r) = (has_enabled l \<or> has_enabled r)"

fun all_enabled :: "BinaryTreeNode \<Rightarrow> bool" where
  "all_enabled (Leaf e) = is_enabled (Leaf e)"
| "all_enabled (Node e l r) = (all_enabled l \<and> all_enabled r)"

text \<open>
  \<^verbatim>\<open>BinaryTreeNode::operator==\<close> with \<^verbatim>\<open>is_equal_nodes\<close>: the flags are equal as tribools or
  both indeterminate, and the subtrees are equal (a null pointer equals a null pointer
  only).
\<close>

fun node_equal :: "BinaryTreeNode \<Rightarrow> BinaryTreeNode \<Rightarrow> bool" where
  "node_equal (Leaf a) (Leaf b) =
     (definitely (tribool_eq a b) \<or> (indeterminate a \<and> indeterminate b))"
| "node_equal (Node a l r) (Node b l' r') =
     ((definitely (tribool_eq a b) \<or> (indeterminate a \<and> indeterminate b))
      \<and> node_equal l l' \<and> node_equal r r')"
| "node_equal _ _ = False"

text \<open>
  The region a tree denotes, as a test on cell words: the cell reached by \<open>w\<close> from the
  root lies in the denoted set when the walk along \<open>w\<close> meets an enabled leaf.
\<close>

fun in_enabled_leaf :: "BinaryTreeNode \<Rightarrow> bool list \<Rightarrow> bool" where
  "in_enabled_leaf (Leaf e) w = is_enabled (Leaf e)"
| "in_enabled_leaf (Node e l r) [] = False"
| "in_enabled_leaf (Node e l r) (b # w) = (if b then in_enabled_leaf r w else in_enabled_leaf l w)"

text \<open>No leaf carries the indeterminate value.\<close>

fun leaves_determinate :: "BinaryTreeNode \<Rightarrow> bool" where
  "leaves_determinate (Leaf e) = (\<not> indeterminate e)"
| "leaves_determinate (Node e l r) = (leaves_determinate l \<and> leaves_determinate r)"

subsection \<open>Restriction of aligned trees\<close>

text \<open>
  \<^verbatim>\<open>BinaryTreeNode::restrict(pThisNode, pOtherNode)\<close>; the result is the new value of
  \<^verbatim>\<open>*pThisNode\<close>.
\<close>

fun restrict_nodes :: "BinaryTreeNode \<Rightarrow> BinaryTreeNode \<Rightarrow> BinaryTreeNode" where
  "restrict_nodes (Leaf a) (Leaf b) = Leaf (tribool_and a b)"
| "restrict_nodes (Node a l r) (Leaf b) =
     (if is_enabled (Leaf b) then Node a l r else make_leaf (Node a l r) false_value)"
| "restrict_nodes (Leaf a) (Node b l r) =
     (if is_enabled (Leaf a) then copy_from (Leaf a) (Node b l r) else Leaf a)"
| "restrict_nodes (Node a l r) (Node b l' r') =
     Node a (restrict_nodes l l') (restrict_nodes r r')"

text \<open>The pointer interface: nothing happens when either pointer is null.\<close>

definition restrict :: "BinaryTreeNode option \<Rightarrow> BinaryTreeNode option \<Rightarrow> BinaryTreeNode option" where
  "restrict pThisNode pOtherNode =
     (case (pThisNode, pOtherNode) of
        (Some t, Some other) \<Rightarrow> Some (restrict_nodes t other)
      | _ \<Rightarrow> pThisNode)"

subsection \<open>Mince and recombine\<close>

datatype error =
    RuntimeError
  | NotALeafNode
  | OutOfRange
  | EmptyInterior
  | DimensionMismatch
  | NullFile
  | DivisionByZero
  | AssertionFailed
  | DeleteFailed

text \<open>
  \<^verbatim>\<open>BinaryTreeNode::mince_node\<close>.  The children of an internal node are never null here, so
  the branch that throws on a null pointer belongs to the pointer interface \<open>mince_ptr\<close>.
\<close>

fun mince_node :: "BinaryTreeNode \<Rightarrow> nat \<Rightarrow> BinaryTreeNode" where
  "mince_node n 0 = n"
| "mince_node n (Suc remaining_depth) =
     (if \<not> is_disabled n then
        (case split n of
           Node e l r \<Rightarrow> Node e (mince_node l remaining_depth) (mince_node r remaining_depth)
         | Leaf e \<Rightarrow> Leaf e)
      else n)"

definition mince_ptr :: "BinaryTreeNode option \<Rightarrow> nat \<Rightarrow> error + BinaryTreeNode option" where
  "mince_ptr p depth =
     (if depth > 0 then
        (case p of Some n \<Rightarrow> Inr (Some (mince_node n depth)) | None \<Rightarrow> Inl RuntimeError)
      else Inr p)"

text \<open>
  \<^verbatim>\<open>BinaryTreeNode::recombine_node\<close>: bottom-up; two leaf children are merged when the
  comparison of their flags is true.
\<close>

fun recombine_node :: "BinaryTreeNode \<Rightarrow> BinaryTreeNode" where
  "recombine_node (Leaf e) = Leaf e"
| "recombine_node (Node e l r) =
     (let pLeftNode = recombine_node l; pRightNode = recombine_node r in
      if is_leaf pLeftNode \<and> is_leaf pRightNode
         \<and> definitely (tribool_eq (isEnabled pLeftNode) (isEnabled pRightNode))
      then make_leaf (Node e pLeftNode pRightNode) (isEnabled pLeftNode)
      else Node e pLeftNode pRightNode)"

definition recombine_ptr :: "BinaryTreeNode option \<Rightarrow> error + BinaryTreeNode" where
  "recombine_ptr p = (case p of Some n \<Rightarrow> Inr (recombine_node n) | None \<Rightarrow> Inl RuntimeError)"

section \<open>Persistence of trees\<close>

text \<open>
  A \<^verbatim>\<open>FILE*\<close> is the list of its bytes: when writing, the bytes written so far; when
  reading, the bytes not yet read.  \<^verbatim>\<open>fputc\<close> appends its argument converted to
  \<^verbatim>\<open>unsigned char\<close>; \<^verbatim>\<open>fgetc\<close> returns the next byte as an \<^verbatim>\<open>int\<close>, or \<^verbatim>\<open>EOF\<close> at the end.
\<close>

type_synonym byte = "8 word"

definition EOF :: int where
  "EOF = - 1"

definition fputc :: "int \<Rightarrow> byte list \<Rightarrow> byte list" where
  "fputc c file = file @ [word_of_int c]"

fun fgetc :: "byte list \<Rightarrow> int \<times> byte list" where
  "fgetc [] = (EOF, [])"
| "fgetc (b # file) = (uint b, file)"

definition int_of_bool :: "bool \<Rightarrow> int" where
  "int_of_bool b = (if b then 1 else 0)"

text \<open>Assignment to the field \<^verbatim>\<open>_isEnabled\<close>; the child pointers stay as they are.\<close>

fun set_isEnabled :: "BinaryTreeNode \<Rightarrow> tribool \<Rightarrow> BinaryTreeNode" where
  "set_isEnabled (Leaf e) v = Leaf v"
| "set_isEnabled (Node e l r) v = Node v l r"

text \<open>
  \<^verbatim>\<open>BinaryTreeNode::remove_to_file\<close>: writes the node in pre-order and deletes both
  subtrees, so the node is left without children, its flag untouched.  The flag of a leaf
  is written after conversion to \<^verbatim>\<open>bool\<close>.
\<close>

fun remove_to_file :: "BinaryTreeNode \<Rightarrow> byte list \<Rightarrow> BinaryTreeNode \<times> byte list" where
  "remove_to_file (Leaf e) file =
     (let hasLeaves = False;
          file1 = fputc (int_of_bool hasLeaves) file;
          isEnabled = definitely e
      in (Leaf e, fputc (int_of_bool isEnabled) file1))"
| "remove_to_file (Node e l r) file =
     (let hasLeaves = True;
          file1 = fputc (int_of_bool hasLeaves) file;
          (pLeftNode, file2) = remove_to_file l file1;
          (pRightNode, file3) = remove_to_file r file2
      in (Leaf e, file3))"

text \<open>
  \<^verbatim>\<open>BinaryTreeNode::add_enabled_from_file\<close>.  A first byte other than 0 (\<^verbatim>\<open>EOF\<close> too) makes
  the node internal: two new children are created with this node's flag, which itself is
  left as it was, and are read in turn.  On a stream that ends early the recursion never
  returns; that is the value \<open>None\<close>.
\<close>

partial_function (option) add_enabled_from_file ::
  "BinaryTreeNode \<Rightarrow> byte list \<Rightarrow> (BinaryTreeNode \<times> byte list) option" where
  "add_enabled_from_file n file =
     (case fgetc file of (hasLeaves, file1) \<Rightarrow>
        if hasLeaves = 0 then
          (case fgetc file1 of (c, file2) \<Rightarrow>
             Some (set_isEnabled n (tribool_of_bool (c \<noteq> 0)), file2))
        else
          do {
            (pLeftNode, file2) \<leftarrow> add_enabled_from_file (Leaf (isEnabled n)) file1;
            (pRightNode, file3) \<leftarrow> add_enabled_from_file (Leaf (isEnabled n)) file2;
            Some (Node (isEnabled n) pLeftNode pRightNode, file3)
          })"

declare add_enabled_from_file.simps [code]

text \<open>
  The tree \<open>T\<close> with the flag of every internal node replaced by \<open>e\<close>; used to state what
  an import builds.
\<close>

fun with_internal_flag :: "tribool \<Rightarrow> BinaryTreeNode \<Rightarrow> BinaryTreeNode" where
  "with_internal_flag e (Leaf v) = Leaf v"
| "with_internal_flag e (Node a l r) = Node e (with_internal_flag e l) (with_internal_flag e r)"

text \<open>Every internal node carries the indeterminate flag.\<close>

fun internal_indeterminate :: "BinaryTreeNode \<Rightarrow> bool" where
  "internal_indeterminate (Leaf v) = True"
| "internal_indeterminate (Node a l r) =
     (indeterminate a \<and> internal_indeterminate l \<and> internal_indeterminate r)"

section \<open>Grids, lattice boxes and cells\<close>

text \<open>
  \<^verbatim>\<open>Float\<close>, \<^verbatim>\<open>Interval\<close>, \<^verbatim>\<open>Vector\<close> and \<^verbatim>\<open>Box\<close> are classes outside the source files.
  Modelled from the spec: "Lattice arithmetic on dyadic rationals is exact", so a
  coordinate is a rational number, an interval is its two end points, and the midpoint and
  the width are computed exactly.  A box is the vector of its intervals.
\<close>

record Interval =
  lower :: rat
  upper :: rat

type_synonym Box = "Interval list"

definition midpoint :: "Interval \<Rightarrow> rat" where
  "midpoint I = (lower I + upper I) / 2"


definition set_lower :: "Interval \<Rightarrow> rat \<Rightarrow> Interval" where
  "set_lower I x = I\<lparr>lower := x\<rparr>"

definition set_upper :: "Interval \<Rightarrow> rat \<Rightarrow> Interval" where
  "set_upper I x = I\<lparr>upper := x\<rparr>"

text \<open>The data of a \<^verbatim>\<open>Grid\<close> (\<^verbatim>\<open>grid.h\<close>): the origin and the lengths, one per dimension.\<close>

record Grid =
  origin :: "rat list"
  lengths :: "rat list"

definition dimension :: "Grid \<Rightarrow> nat" where
  "dimension g = length (lengths g)"

text \<open>
  Modelled from the spec: \<^verbatim>\<open>primary_cell_at_height\<close> is in the missing header.  "odd
  height h: R_h = R_{h-1}, L_h = L_{h-1} - (R_{h-1} - L_{h-1}); even height h:
  L_h = L_{h-1}, R_h = R_{h-1} + (R_{h-1} - L_{h-1})."  The corners are integers of
  unbounded size here.
\<close>

definition primary_cell_at_height :: "nat \<Rightarrow> int \<times> int \<Rightarrow> int \<times> int" where
  "primary_cell_at_height theHeight c =
     (case c of (leftBottomCorner, rightTopCorner) \<Rightarrow>
        if odd theHeight then (2 * leftBottomCorner - rightTopCorner, rightTopCorner)
        else (leftBottomCorner, 2 * rightTopCorner - leftBottomCorner))"

text \<open>
  The loop of \<^verbatim>\<open>primary_cell_lattice_box\<close>: from the corners (0, 1) of height 0, one call
  of \<^verbatim>\<open>primary_cell_at_height\<close> for each height up to the given one.
\<close>

fun primary_cell_corners :: "nat \<Rightarrow> int \<times> int" where
  "primary_cell_corners 0 = (0, 1)"
| "primary_cell_corners (Suc i) = primary_cell_at_height (Suc i) (primary_cell_corners i)"

definition primary_cell_lattice_box :: "nat \<Rightarrow> nat \<Rightarrow> Box" where
  "primary_cell_lattice_box theHeight dimensions =
     (case primary_cell_corners theHeight of (leftBottomCorner, rightTopCorner) \<Rightarrow>
        replicate dimensions \<lparr>lower = of_int leftBottomCorner, upper = of_int rightTopCorner\<rparr>)"

text \<open>\<^verbatim>\<open>GridAbstractCell::primary_cell_path\<close>: the outer loop counts the height down.\<close>

fun primary_cell_path :: "nat \<Rightarrow> nat \<Rightarrow> nat \<Rightarrow> bool list" where
  "primary_cell_path dimensions topPCellHeight bottomPCellHeight =
     (if topPCellHeight > bottomPCellHeight then
        replicate dimensions (odd topPCellHeight)
          @ primary_cell_path dimensions (topPCellHeight - 1) bottomPCellHeight
      else [])"

declare primary_cell_path.simps [simp del]

text \<open>
  The loop of \<^verbatim>\<open>GridCell::compute_lattice_box\<close>, from position \<open>i\<close> of the word on: the
  box is halved along the dimension \<open>i mod dimensions\<close>.
\<close>

fun compute_lattice_box_loop :: "nat \<Rightarrow> nat \<Rightarrow> bool list \<Rightarrow> Box \<Rightarrow> Box" where
  "compute_lattice_box_loop dimensions i [] theResultLatticeBox = theResultLatticeBox"
| "compute_lattice_box_loop dimensions i (b # theWord) theResultLatticeBox =
     (let current_dimension = i mod dimensions;
          middlePointInCurrDim = midpoint (theResultLatticeBox ! current_dimension)
      in compute_lattice_box_loop dimensions (i + 1) theWord
           (theResultLatticeBox[current_dimension :=
              (if b then set_lower (theResultLatticeBox ! current_dimension) middlePointInCurrDim
               else set_upper (theResultLatticeBox ! current_dimension) middlePointInCurrDim)]))"

text \<open>
  \<^verbatim>\<open>GridCell::compute_lattice_box\<close>.  With no dimension and a word that is not empty the
  source divides by zero at \<^verbatim>\<open>i % dimensions\<close>; that is the error value.
\<close>

definition compute_lattice_box :: "nat \<Rightarrow> nat \<Rightarrow> bool list \<Rightarrow> error + Box" where
  "compute_lattice_box dimensions theHeight theWord =
     (if dimensions = 0 \<and> theWord \<noteq> [] then Inl DivisionByZero
      else Inr (compute_lattice_box_loop dimensions 0 theWord
                  (primary_cell_lattice_box theHeight dimensions)))"

text \<open>
  \<^verbatim>\<open>GridAbstractCell::lattice_box_to_space\<close>, with \<^verbatim>\<open>add_approx\<close> and \<^verbatim>\<open>mul_approx\<close> taken as
  exact; the loop runs over the dimensions of the grid.
\<close>

definition lattice_box_to_space :: "Box \<Rightarrow> Grid \<Rightarrow> Box" where
  "lattice_box_to_space theLatticeBox theGrid =
     map (\<lambda>current_dimension.
            \<lparr>lower = origin theGrid ! current_dimension
                       + lengths theGrid ! current_dimension * lower (theLatticeBox ! current_dimension),
             upper = origin theGrid ! current_dimension
                       + lengths theGrid ! current_dimension * upper (theLatticeBox ! current_dimension)\<rparr>)
         [0 ..< dimension theGrid]"

text \<open>
  Modelled from the spec: \<^verbatim>\<open>GridCell::compute_box\<close> is in the missing header.  "box(): map
  the lattice box through the grid."
\<close>

definition compute_box :: "Grid \<Rightarrow> nat \<Rightarrow> bool list \<Rightarrow> error + Box" where
  "compute_box theGrid theHeight theWord =
     (case compute_lattice_box (dimension theGrid) theHeight theWord of
        Inl e \<Rightarrow> Inl e
      | Inr b \<Rightarrow> Inr (lattice_box_to_space b theGrid))"

text \<open>
  A \<^verbatim>\<open>GridCell\<close> has the fields \<^verbatim>\<open>_theGrid\<close>, \<^verbatim>\<open>_theHeight\<close> and \<^verbatim>\<open>_theWord\<close> (its box is
  computed from them by \<open>compute_box\<close>).
\<close>

record GridCell =
  the_grid :: Grid
  the_height :: nat
  the_word :: "bool list"

text \<open>
  A \<^verbatim>\<open>GridTreeSubset\<close> is its root cell \<^verbatim>\<open>_theGridCell\<close> and the root \<^verbatim>\<open>_pRootTreeNode\<close> of its tree; a \<^verbatim>\<open>GridTreeSet\<close> is a
  \<^verbatim>\<open>GridTreeSubset\<close> that owns the tree.
\<close>

record GridTreeSubset =
  the_grid_cell :: GridCell
  p_root_tree_node :: BinaryTreeNode

type_synonym GridTreeSet = GridTreeSubset



definition cell_box :: "GridCell \<Rightarrow> error + Box" where
  "cell_box c = compute_box (the_grid c) (the_height c) (the_word c)"


subsection \<open>Re-rooting a paving\<close>

text \<open>
  \<^verbatim>\<open>BinaryTreeNode::prepend_tree\<close>.  The new root is a default node, a disabled leaf; each
  node on the path is split and the walk moves to the child the path names; at the last
  position that child is replaced by the old root.  For an empty path \<^verbatim>\<open>size() - 1\<close> wraps
  around and the loop reads \<^verbatim>\<open>rootNodePath[0]\<close> past the end of the word: the error value.
\<close>

fun prepend_tree_loop :: "bool list \<Rightarrow> BinaryTreeNode \<Rightarrow> BinaryTreeNode \<Rightarrow> BinaryTreeNode" where
  "prepend_tree_loop [] pCurrentBinaryTreeNode oldRootNode = pCurrentBinaryTreeNode"
| "prepend_tree_loop [b] pCurrentBinaryTreeNode oldRootNode =
     (case split pCurrentBinaryTreeNode of
        Node e l r \<Rightarrow> if b then Node e l oldRootNode else Node e oldRootNode r
      | Leaf e \<Rightarrow> Leaf e)"
| "prepend_tree_loop (b # rootNodePath) pCurrentBinaryTreeNode oldRootNode =
     (case split pCurrentBinaryTreeNode of
        Node e l r \<Rightarrow>
          if b then Node e l (prepend_tree_loop rootNodePath r oldRootNode)
          else Node e (prepend_tree_loop rootNodePath l oldRootNode) r
      | Leaf e \<Rightarrow> Leaf e)"

definition prepend_tree :: "bool list \<Rightarrow> BinaryTreeNode \<Rightarrow> error + BinaryTreeNode" where
  "prepend_tree rootNodePath oldRootNode =
     (if rootNodePath = [] then Inl OutOfRange
      else Inr (prepend_tree_loop rootNodePath (Leaf false_value) oldRootNode))"

definition up_to_primary_cell :: "GridTreeSet \<Rightarrow> nat \<Rightarrow> error + GridTreeSet" where
  "up_to_primary_cell S toPCellHeight =
     (let fromPCellHeight = the_height (the_grid_cell S);
          primaryCellPath = primary_cell_path (dimension (the_grid (the_grid_cell S)))
                              toPCellHeight fromPCellHeight
      in case prepend_tree primaryCellPath (p_root_tree_node S) of
           Inl e \<Rightarrow> Inl e
         | Inr newRoot \<Rightarrow>
             Inr (S\<lparr>p_root_tree_node := newRoot,
                    the_grid_cell := \<lparr>the_grid = the_grid (the_grid_cell S),
                                    the_height = toPCellHeight, the_word = []\<rparr>\<rparr>))"

subsection \<open>Covering of a box by a subset\<close>

text \<open>
  The static \<^verbatim>\<open>GridTreeSubset::covers\<close>.  \<^verbatim>\<open>Box::overlaps\<close> belongs to the class \<^verbatim>\<open>Box\<close> outside
  the source files and is the parameter \<open>overlaps\<close>.  The word is extended for each
  recursive call and restored after it.  The last branch is \<^verbatim>\<open>ARIADNE_ASSERT(false)\<close>.
\<close>

fun covers ::
  "(Box \<Rightarrow> Box \<Rightarrow> tribool) \<Rightarrow> BinaryTreeNode \<Rightarrow> Grid \<Rightarrow> nat \<Rightarrow> bool list \<Rightarrow> Box
     \<Rightarrow> error + tribool" where
  "covers overlaps (Leaf e) theGrid theHeight theWord theBox =
     (case compute_box theGrid theHeight theWord of
        Inl err \<Rightarrow> Inl err
      | Inr theCellsBox \<Rightarrow>
          (let doIntersect = overlaps theCellsBox theBox in
           if definitely (tribool_not doIntersect) then Inr true_value
           else if is_enabled (Leaf e) then Inr true_value
           else Inr (tribool_not doIntersect)))"
| "covers overlaps (Node e l r) theGrid theHeight theWord theBox =
     (case compute_box theGrid theHeight theWord of
        Inl err \<Rightarrow> Inl err
      | Inr theCellsBox \<Rightarrow>
          (let doIntersect = overlaps theCellsBox theBox in
           if definitely (tribool_not doIntersect) then Inr true_value
           else
             (case covers overlaps l theGrid theHeight (theWord @ [False]) theBox of
                Inl err \<Rightarrow> Inl err
              | Inr result_left \<Rightarrow>
                  if definitely (tribool_not result_left) then Inr false_value
                  else
                    (case covers overlaps r theGrid theHeight (theWord @ [True]) theBox of
                       Inl err \<Rightarrow> Inl err
                     | Inr result_right \<Rightarrow>
                         if definitely (tribool_not result_right) then Inr false_value
                         else if definitely (tribool_and result_left result_right)
                           then Inr true_value
                         else if indeterminate result_left \<or> indeterminate result_right
                           then Inr indeterminate_value
                         else Inl AssertionFailed))))"

text \<open>
  Modelled from the spec: the class \<^verbatim>\<open>Box\<close> is outside the source files.  For two boxes
  given exactly, \<open>box_overlaps\<close> is definitely false when some coordinate separates them,
  definitely true when their interiors meet, and indeterminate when they only touch.  It
  is used as an instance of the parameter of \<open>covers\<close>.
\<close>

definition box_overlaps :: "Box \<Rightarrow> Box \<Rightarrow> tribool" where
  "box_overlaps a b =
     (if list_ex (\<lambda>(I, J). upper I < lower J \<or> upper J < lower I) (zip a b) then false_value
      else if list_all (\<lambda>(I, J). lower J < upper I \<and> lower I < upper J) (zip a b) then true_value
      else indeterminate_value)"

subsection \<open>The neighbouring cell\<close>








section \<open>Pavings\<close>

subsection \<open>Aligning a paving with a primary cell\<close>

text \<open>
  A pointer to a node inside the tree of a paving is the path from the root to that node;
  a mutation through the pointer is \<open>modify_at\<close> that path.
\<close>

fun modify_at :: "bool list \<Rightarrow> (BinaryTreeNode \<Rightarrow> BinaryTreeNode) \<Rightarrow> BinaryTreeNode \<Rightarrow> BinaryTreeNode" where
  "modify_at [] f n = f n"
| "modify_at (b # p) f (Node e l r) =
     (if b then Node e l (modify_at p f r) else Node e (modify_at p f l) r)"
| "modify_at (b # p) f (Leaf e) = Leaf e"

fun node_at :: "bool list \<Rightarrow> BinaryTreeNode \<Rightarrow> BinaryTreeNode" where
  "node_at [] n = n"
| "node_at (b # p) (Node e l r) = (if b then node_at p r else node_at p l)"
| "node_at (b # p) (Leaf e) = Leaf e"

text \<open>
  The loop of \<^verbatim>\<open>GridTreeSet::align_with_cell\<close> along the primary-cell path, from the current
  node: the new subtree, the path walked to the node the loop ends at, and
  \<^verbatim>\<open>has_stopped\<close>, which is assigned only while the path is not used up.
\<close>

fun align_with_cell_loop ::
  "bool list \<Rightarrow> bool \<Rightarrow> bool \<Rightarrow> bool \<Rightarrow> BinaryTreeNode \<Rightarrow> BinaryTreeNode \<times> bool list \<times> bool" where
  "align_with_cell_loop [] stop_on_enabled stop_on_disabled has_stopped pBinaryTreeNode =
     (pBinaryTreeNode, [], has_stopped)"
| "align_with_cell_loop (b # primaryCellPath) stop_on_enabled stop_on_disabled has_stopped
       pBinaryTreeNode =
     (if (is_enabled pBinaryTreeNode \<and> stop_on_enabled)
         \<or> (is_disabled pBinaryTreeNode \<and> stop_on_disabled)
      then (pBinaryTreeNode, [], True)
      else
        (case split pBinaryTreeNode of
           Node e l r \<Rightarrow>
             (if b then
                (case align_with_cell_loop primaryCellPath stop_on_enabled stop_on_disabled False r of
                   (r', walked, stopped) \<Rightarrow> (Node e l r', b # walked, stopped))
              else
                (case align_with_cell_loop primaryCellPath stop_on_enabled stop_on_disabled False l of
                   (l', walked, stopped) \<Rightarrow> (Node e l' r, b # walked, stopped)))
         | Leaf e \<Rightarrow> (Leaf e, [], False)))"

text \<open>
  \<^verbatim>\<open>GridTreeSet::align_with_cell\<close>: the paving after the alignment, the path to the node
  returned, and \<^verbatim>\<open>has_stopped\<close>.
\<close>

definition align_with_cell ::
  "GridTreeSet \<Rightarrow> nat \<Rightarrow> bool \<Rightarrow> bool \<Rightarrow> bool \<Rightarrow> error + GridTreeSet \<times> bool list \<times> bool" where
  "align_with_cell S otherPavingPCellHeight stop_on_enabled stop_on_disabled has_stopped =
     (let thisPavingPCellHeight = the_height (the_grid_cell S) in
      if thisPavingPCellHeight > otherPavingPCellHeight then
        (let primaryCellPath = primary_cell_path (dimension (the_grid (the_grid_cell S)))
                                 thisPavingPCellHeight otherPavingPCellHeight
         in case align_with_cell_loop primaryCellPath stop_on_enabled stop_on_disabled has_stopped
                   (p_root_tree_node S) of
              (newRoot, walked, stopped) \<Rightarrow> Inr (S\<lparr>p_root_tree_node := newRoot\<rparr>, walked, stopped))
      else if thisPavingPCellHeight < otherPavingPCellHeight then
        (case up_to_primary_cell S otherPavingPCellHeight of
           Inl err \<Rightarrow> Inl err
         | Inr S' \<Rightarrow> Inr (S', [], has_stopped))
      else Inr (S, [], has_stopped))"

subsection \<open>The smallest enclosing primary cell\<close>

text \<open>
  Modelled from the spec: \<^verbatim>\<open>inside\<close> for vectors of intervals is outside the source files.
  "iterate h from 0, checking box \<subseteq> primaryCell(h); return first h that satisfies."
\<close>

definition inside :: "Box \<Rightarrow> Box \<Rightarrow> bool" where
  "inside a b = list_all2 (\<lambda>I J. lower J \<le> lower I \<and> upper I \<le> upper J) a b"

text \<open>
  The loop of \<^verbatim>\<open>smallest_enclosing_primary_cell_height\<close> for a lattice box, from the state
  \<open>(height, corners)\<close>.
\<close>

partial_function (option) smallest_enclosing_primary_cell_height_loop ::
  "Box \<Rightarrow> nat \<Rightarrow> int \<times> int \<Rightarrow> nat option" where
  "smallest_enclosing_primary_cell_height_loop theLatticeBox height c =
     (let primaryCellBox = replicate (length theLatticeBox)
                             \<lparr>lower = of_int (fst c), upper = of_int (snd c)\<rparr>
      in if inside theLatticeBox primaryCellBox then Some height
         else smallest_enclosing_primary_cell_height_loop theLatticeBox (height + 1)
                (primary_cell_at_height (height + 1) c))"

declare smallest_enclosing_primary_cell_height_loop.simps [code]

text \<open>
  \<^verbatim>\<open>(theBox[i] - origin[i]) / lengths[i]\<close> on an interval, exactly.  The lengths of a grid
  are positive; for other divisors the value here has no meaning.
\<close>

definition to_lattice_interval :: "Interval \<Rightarrow> rat \<Rightarrow> rat \<Rightarrow> Interval" where
  "to_lattice_interval I o' l =
     \<lparr>lower = min ((lower I - o') / l) ((upper I - o') / l),
      upper = max ((lower I - o') / l) ((upper I - o') / l)\<rparr>"

definition smallest_enclosing_primary_cell_height :: "Box \<Rightarrow> Grid \<Rightarrow> nat option" where
  "smallest_enclosing_primary_cell_height theBox theGrid =
     (let theLatticeBox =
            map (\<lambda>i. to_lattice_interval (theBox ! i) (origin theGrid ! i) (lengths theGrid ! i))
                [0 ..< length theBox]
      in smallest_enclosing_primary_cell_height_loop theLatticeBox 0 (0, 1))"

subsection \<open>Outer approximation\<close>

text \<open>
  The set to approximate is seen through its interface only: a \<^verbatim>\<open>CompactSetInterface\<close> gives
  its dimension, a bounding box and the test \<^verbatim>\<open>disjoint(Box)\<close>.  The two dynamic casts of the
  source are two optional members: \<^verbatim>\<open>covers(Box)\<close> when the set is also an
  \<^verbatim>\<open>OpenSetInterface\<close>, and the test \<^verbatim>\<open>disjoint(Box, cache)\<close> when it is a \<^verbatim>\<open>TaylorSet\<close>.
\<close>

record CompactSet =
  set_dimension :: nat
  set_bounding_box :: Box
  set_disjoint :: "Box \<Rightarrow> tribool"
  set_covers :: "(Box \<Rightarrow> tribool) option"
  set_taylor_disjoint :: "(Box \<Rightarrow> tribool) option"

text \<open>
  Modelled from the spec: \<^verbatim>\<open>Box::disjoint(Box)\<close> of the class \<^verbatim>\<open>Box\<close> outside the source files,
  for boxes given exactly: the negation of \<open>box_overlaps\<close>.
\<close>

definition box_disjoint :: "Box \<Rightarrow> Box \<Rightarrow> tribool" where
  "box_disjoint a b = tribool_not (box_overlaps a b)"

text \<open>
  Modelled from the spec: \<^verbatim>\<open>zero_cell_subdivisions_to_tree_subdivisions\<close> is in the missing
  header.  "max_tree_depth = n d + (h d) where h is primary-cell height and d is
  dimension"; the calls pass 0 for the length of the path from the primary cell.
\<close>

definition zero_cell_subdivisions_to_tree_subdivisions :: "nat \<Rightarrow> nat \<Rightarrow> nat \<Rightarrow> nat \<Rightarrow> nat" where
  "zero_cell_subdivisions_to_tree_subdivisions dimensions numSubdivInDim primaryCellHeight
       primaryToRootCellPathLength =
     numSubdivInDim * dimensions + primaryCellHeight * dimensions - primaryToRootCellPathLength"

text \<open>
  The body shared by \<^verbatim>\<open>_adjoin_outer_approximation\<close> (on a lattice box) and
  \<^verbatim>\<open>_adjoin_outer_approximation_taylorset\<close>, which differ in their first condition only:
  that condition is the parameter \<open>is_disjoint\<close>, given the length of the path and the
  box of the cell.  The path is passed along instead of being pushed and popped.  In the
  last branch the node is a leaf, on which \<^verbatim>\<open>set_enabled\<close> assigns the flag.
\<close>

function adjoin_outer_approximation_body ::
  "(nat \<Rightarrow> Box \<Rightarrow> bool) \<Rightarrow> Grid \<Rightarrow> Box \<Rightarrow> BinaryTreeNode \<Rightarrow> nat \<Rightarrow> CompactSet \<Rightarrow> bool list
     \<Rightarrow> BinaryTreeNode" where
  "adjoin_outer_approximation_body is_disjoint theGrid lattice_box pBinaryTreeNode max_mince_depth
       theSet pPath =
     (let theCurrentCellBox = lattice_box_to_space lattice_box theGrid in
      if is_disjoint (length pPath) theCurrentCellBox then pBinaryTreeNode
      else if (case set_covers theSet of
                 Some covers_box \<Rightarrow> definitely (covers_box theCurrentCellBox)
               | None \<Rightarrow> False)
        then make_leaf pBinaryTreeNode true_value
      else if is_enabled pBinaryTreeNode then pBinaryTreeNode
      else if length pPath < max_mince_depth then
        (let new_dimension = length pPath mod dimension theGrid;
             middlePointInCurrDim = midpoint (lattice_box ! new_dimension);
             left_lattice_box = lattice_box[new_dimension :=
                                  set_upper (lattice_box ! new_dimension) middlePointInCurrDim];
             right_lattice_box = lattice_box[new_dimension :=
                                   set_lower (lattice_box ! new_dimension) middlePointInCurrDim]
         in case split pBinaryTreeNode of
              Node e l r \<Rightarrow>
                (let left_node = adjoin_outer_approximation_body is_disjoint theGrid
                                   left_lattice_box l max_mince_depth theSet (pPath @ [False]);
                     right_node = adjoin_outer_approximation_body is_disjoint theGrid
                                    right_lattice_box r max_mince_depth theSet (pPath @ [True])
                 in if is_enabled left_node \<and> is_enabled right_node
                    then make_leaf (Node e left_node right_node) true_value
                    else Node e left_node right_node)
            | Leaf e \<Rightarrow> Leaf e)
      else if \<not> is_leaf pBinaryTreeNode then make_leaf pBinaryTreeNode true_value
      else set_isEnabled pBinaryTreeNode true_value)"
  by pat_completeness auto
termination
  by (relation "measure (\<lambda>(is_disjoint, theGrid, lattice_box, n, max_mince_depth, theSet, pPath).
                  max_mince_depth - length pPath)") auto

declare adjoin_outer_approximation_body.simps [simp del]

text \<open>
  The first condition of \<^verbatim>\<open>_adjoin_outer_approximation\<close>, where \<^verbatim>\<open>pTaylorSet\<close> is the result of
  the cast to \<^verbatim>\<open>TaylorSet\<close>.
\<close>

definition outer_is_disjoint :: "nat \<Rightarrow> CompactSet \<Rightarrow> nat \<Rightarrow> Box \<Rightarrow> bool" where
  "outer_is_disjoint max_mince_depth theSet path_size theCurrentCellBox =
     (let pTaylorSet = (set_taylor_disjoint theSet \<noteq> None) in
      (pTaylorSet \<and> path_size < max_mince_depth
         \<and> definitely (box_disjoint (set_bounding_box theSet) theCurrentCellBox))
      \<or> (((pTaylorSet \<and> path_size = max_mince_depth) \<or> \<not> pTaylorSet)
          \<and> definitely (set_disjoint theSet theCurrentCellBox)))"

definition adjoin_outer_approximation_node ::
  "Grid \<Rightarrow> Box \<Rightarrow> BinaryTreeNode \<Rightarrow> nat \<Rightarrow> nat \<Rightarrow> CompactSet \<Rightarrow> bool list \<Rightarrow> BinaryTreeNode" where
  "adjoin_outer_approximation_node theGrid lattice_box pBinaryTreeNode primary_cell_height
       max_mince_depth theSet pPath =
     adjoin_outer_approximation_body (outer_is_disjoint max_mince_depth theSet) theGrid lattice_box
       pBinaryTreeNode max_mince_depth theSet pPath"

text \<open>
  The first condition of \<^verbatim>\<open>_adjoin_outer_approximation_taylorset\<close>; this function has no
  branch for \<^verbatim>\<open>covers\<close>.
\<close>

definition taylorset_is_disjoint :: "nat \<Rightarrow> CompactSet \<Rightarrow> (Box \<Rightarrow> tribool) \<Rightarrow> nat \<Rightarrow> Box \<Rightarrow> bool" where
  "taylorset_is_disjoint max_mince_depth theSet disjoint_with_cache path_size theCurrentCellBox =
     ((path_size < max_mince_depth
         \<and> definitely (box_disjoint (set_bounding_box theSet) theCurrentCellBox))
      \<or> (path_size = max_mince_depth \<and> definitely (disjoint_with_cache theCurrentCellBox)))"

definition adjoin_outer_approximation_taylorset ::
  "Grid \<Rightarrow> Box \<Rightarrow> (Box \<Rightarrow> tribool) \<Rightarrow> BinaryTreeNode \<Rightarrow> nat \<Rightarrow> nat \<Rightarrow> CompactSet \<Rightarrow> bool list
     \<Rightarrow> BinaryTreeNode" where
  "adjoin_outer_approximation_taylorset theGrid lattice_box disjoint_with_cache pBinaryTreeNode
       primary_cell_height max_mince_depth theSet pPath =
     adjoin_outer_approximation_body
       (taylorset_is_disjoint max_mince_depth theSet disjoint_with_cache) theGrid lattice_box
       pBinaryTreeNode max_mince_depth (theSet\<lparr>set_covers := None\<rparr>) pPath"

text \<open>
  \<^verbatim>\<open>GridTreeSet::adjoin_outer_approximation\<close>.  An error comes with the paving as it is when
  the error is raised; \<open>None\<close> is a search for the enclosing primary cell that does not
  end.
\<close>

definition adjoin_outer_approximation ::
  "GridTreeSet \<Rightarrow> CompactSet \<Rightarrow> nat \<Rightarrow> (error \<times> GridTreeSet + GridTreeSet) option" where
  "adjoin_outer_approximation S theSet numSubdivInDim =
     (let theGrid = the_grid (the_grid_cell S) in
      if set_dimension theSet \<noteq> dimension theGrid then Some (Inl (AssertionFailed, S))
      else
        (case smallest_enclosing_primary_cell_height (set_bounding_box theSet) theGrid of
           None \<Rightarrow> None
         | Some height \<Rightarrow>
             (let outer_approx_primary_cell_height = height in
              case align_with_cell S outer_approx_primary_cell_height True False False of
                Inl err \<Rightarrow> Some (Inl (err, S))
              | Inr (S1, pBinaryTreeNode, has_stopped) \<Rightarrow>
                  if \<not> has_stopped then
                    (let max_mince_depth = zero_cell_subdivisions_to_tree_subdivisions
                           (dimension (the_grid (the_grid_cell S1))) numSubdivInDim
                           outer_approx_primary_cell_height 0
                     in case compute_lattice_box (dimension (the_grid (the_grid_cell S1)))
                               outer_approx_primary_cell_height [] of
                          Inl err \<Rightarrow> Some (Inl (err, S1))
                        | Inr lattice_box \<Rightarrow>
                            (case set_taylor_disjoint theSet of
                               Some disjoint_with_cache \<Rightarrow>
                                 Some (Inr (S1\<lparr>p_root_tree_node :=
                                   modify_at pBinaryTreeNode
                                     (\<lambda>n. adjoin_outer_approximation_taylorset
                                            (the_grid (the_grid_cell S1)) lattice_box
                                            disjoint_with_cache n outer_approx_primary_cell_height
                                            max_mince_depth theSet [])
                                     (p_root_tree_node S1)\<rparr>))
                             | None \<Rightarrow>
                                 Some (Inr (S1\<lparr>p_root_tree_node :=
                                   modify_at pBinaryTreeNode
                                     (\<lambda>n. adjoin_outer_approximation_node
                                            (the_grid (the_grid_cell S1)) lattice_box n
                                            outer_approx_primary_cell_height max_mince_depth
                                            theSet [])
                                     (p_root_tree_node S1)\<rparr>))))
                  else Some (Inr S1))))"

text \<open>
  \<^verbatim>\<open>GridTreeSet::adjoin_over_approximation\<close>.  A \<^verbatim>\<open>Box\<close> is passed on as a set; that
  conversion belongs to the class \<^verbatim>\<open>Box\<close> and is the parameter \<open>box_as_set\<close>.  The
  exception is \<open>EmptyInterior\<close>.
\<close>

definition adjoin_over_approximation ::
  "(Box \<Rightarrow> CompactSet) \<Rightarrow> GridTreeSet \<Rightarrow> Box \<Rightarrow> nat \<Rightarrow> (error \<times> GridTreeSet + GridTreeSet) option" where
  "adjoin_over_approximation box_as_set S theBox numSubdivInDim =
     (if list_ex (\<lambda>I. lower I \<ge> upper I) theBox then Some (Inl (EmptyInterior, S))
      else adjoin_outer_approximation S (box_as_set theBox) numSubdivInDim)"

subsection \<open>Import and export of a paving\<close>

text \<open>
  The file system, as far as \<^verbatim>\<open>fopen\<close>, \<^verbatim>\<open>fclose\<close> and \<^verbatim>\<open>std::remove\<close> are concerned: the
  contents of the files that exist, and the names that \<^verbatim>\<open>std::remove\<close> cannot delete.
  \<^verbatim>\<open>std::remove\<close> returns 0 and deletes the file, or returns a value other than 0 and leaves
  the file system as it is.
\<close>

record FileSystem =
  file_contents :: "string \<rightharpoonup> byte list"
  undeletable :: "string set"

definition std_remove :: "FileSystem \<Rightarrow> string \<Rightarrow> int \<times> FileSystem" where
  "std_remove fs filename =
     (if file_contents fs filename \<noteq> None \<and> filename \<notin> undeletable fs
      then (0, fs\<lparr>file_contents := (file_contents fs)(filename := None)\<rparr>)
      else (- 1, fs))"

text \<open>
  Modelled from the spec: \<^verbatim>\<open>set_unknown_unchecked\<close> is in the missing header.  The export
  leaves "the in-memory tree reset to a single indeterminate leaf"; the source's comment:
  "Set the enabledness to unknown and set its left and right nodes to NULL".
\<close>

definition set_unknown_unchecked :: "BinaryTreeNode \<Rightarrow> BinaryTreeNode" where
  "set_unknown_unchecked n = Leaf indeterminate_value"

text \<open>
  \<^verbatim>\<open>GridTreeSet::import_from_file\<close>.  Opening a file that does not exist gives a null
  \<^verbatim>\<open>FILE*\<close>, which \<^verbatim>\<open>fgetc\<close> must not be given: the error \<open>NullFile\<close>.  An error comes with the
  paving and the file system as they are when it is raised; \<open>None\<close> is a read that does not
  return.
\<close>

definition import_from_file ::
  "GridTreeSet \<Rightarrow> FileSystem \<Rightarrow> string
     \<Rightarrow> (error \<times> GridTreeSet \<times> FileSystem + GridTreeSet \<times> FileSystem) option" where
  "import_from_file S fs filename =
     (case file_contents fs filename of
        None \<Rightarrow> Some (Inl (NullFile, S, fs))
      | Some file \<Rightarrow>
          (case add_enabled_from_file (p_root_tree_node S) file of
             None \<Rightarrow> None
           | Some (newRoot, rest) \<Rightarrow>
               (let S' = S\<lparr>p_root_tree_node := newRoot\<rparr> in
                case std_remove fs filename of
                  (rc, fs') \<Rightarrow>
                    if rc \<noteq> 0 then Some (Inl (DeleteFailed, S', fs'))
                    else Some (Inr (S', fs')))))"

text \<open>
  \<^verbatim>\<open>GridTreeSet::export_to_file\<close>: the file is opened for writing (created or emptied; this
  is taken to succeed), the tree is written and removed, and the root is set to unknown.
\<close>

definition export_to_file :: "GridTreeSet \<Rightarrow> FileSystem \<Rightarrow> string \<Rightarrow> GridTreeSet \<times> FileSystem" where
  "export_to_file S fs filename =
     (case remove_to_file (p_root_tree_node S) [] of
        (newRoot, file) \<Rightarrow>
          (S\<lparr>p_root_tree_node := set_unknown_unchecked newRoot\<rparr>,
           fs\<lparr>file_contents := (file_contents fs)(filename \<mapsto> file)\<rparr>))"

text \<open>
  Modelled from the spec: the class \<^verbatim>\<open>Box\<close> is outside the source files.  A box as a set:
  its bounding box is the box itself, and \<^verbatim>\<open>disjoint\<close> and \<^verbatim>\<open>covers\<close> compare boxes
  exactly.  It is used as an instance of the parameter of \<open>adjoin_over_approximation\<close>.
\<close>

definition box_covers :: "Box \<Rightarrow> Box \<Rightarrow> tribool" where
  "box_covers a b =
     (if list_all2 (\<lambda>I J. lower I < lower J \<and> upper J < upper I) a b then true_value
      else if list_all2 (\<lambda>I J. lower I \<le> lower J \<and> upper J \<le> upper I) a b
        then indeterminate_value
      else false_value)"

definition box_as_set :: "Box \<Rightarrow> CompactSet" where
  "box_as_set b =
     \<lparr>set_dimension = length b, set_bounding_box = b, set_disjoint = box_disjoint b,
      set_covers = Some (box_covers b), set_taylor_disjoint = None\<rparr>"

subsection \<open>Points, boxes and well-formed trees\<close>



text \<open>The path \<open>p\<close> from the root runs through internal nodes only, so it ends at a node.\<close>

fun has_path :: "bool list \<Rightarrow> BinaryTreeNode \<Rightarrow> bool" where
  "has_path [] n = True"
| "has_path (b # p) (Node e l r) = (if b then has_path p r else has_path p l)"
| "has_path (b # p) (Leaf e) = False"

section \<open>The operations that change a paving\<close>

subsection \<open>Adjoining and removing on trees\<close>

text \<open>
  Modelled from the spec: \<^verbatim>\<open>set_enabled\<close> and \<^verbatim>\<open>set_disabled\<close> are in the missing header,
  "scalar mutations permitted only on leaves".  Every call below is on a leaf, where they
  assign the flag.
\<close>

definition set_enabled :: "BinaryTreeNode \<Rightarrow> BinaryTreeNode" where
  "set_enabled n = set_isEnabled n true_value"

definition set_disabled :: "BinaryTreeNode \<Rightarrow> BinaryTreeNode" where
  "set_disabled n = set_isEnabled n false_value"

text \<open>\<^verbatim>\<open>BinaryTreeNode::depth\<close>.\<close>

fun depth :: "BinaryTreeNode \<Rightarrow> nat" where
  "depth (Leaf e) = 0"
| "depth (Node e l r) = max (depth l) (depth r) + 1"

text \<open>
  The static \<^verbatim>\<open>BinaryTreeNode::add_enabled(pRootTreeNode, path, position)\<close>, on the part of
  the path from \<open>position\<close> on.  \<open>split\<close> changes leaves only, so it stands for the test
  \<^verbatim>\<open>is_leaf\<close> followed by \<^verbatim>\<open>split\<close>.
\<close>

fun add_enabled_path :: "BinaryTreeNode \<Rightarrow> bool list \<Rightarrow> BinaryTreeNode" where
  "add_enabled_path pRootTreeNode [] =
     (if is_leaf pRootTreeNode then set_enabled pRootTreeNode
      else make_leaf pRootTreeNode true_value)"
| "add_enabled_path pRootTreeNode (b # path) =
     (if is_leaf pRootTreeNode \<and> is_enabled pRootTreeNode then pRootTreeNode
      else
        (case split pRootTreeNode of
           Node e l r \<Rightarrow>
             if b then Node e l (add_enabled_path r path) else Node e (add_enabled_path l path) r
         | Leaf e \<Rightarrow> Leaf e))"

text \<open>
  The static \<^verbatim>\<open>BinaryTreeNode::add_enabled(pToTreeRoot, pFromTreeRoot)\<close>.  A disabled leaf
  that receives a subtree gets copies of its two children and is then
  \<^verbatim>\<open>set_unknown()\<close>: an internal node with the indeterminate flag.
\<close>

fun add_enabled_tree :: "BinaryTreeNode \<Rightarrow> BinaryTreeNode \<Rightarrow> BinaryTreeNode" where
  "add_enabled_tree (Leaf a) (Leaf b) =
     (if is_enabled (Leaf a) then Leaf a
      else if is_enabled (Leaf b) then set_enabled (Leaf a)
      else Leaf a)"
| "add_enabled_tree (Leaf a) (Node b l' r') =
     (if is_enabled (Leaf a) then Leaf a else Node indeterminate_value l' r')"
| "add_enabled_tree (Node a l r) (Leaf b) =
     (if is_enabled (Leaf b) then make_leaf (Node a l r) true_value else Node a l r)"
| "add_enabled_tree (Node a l r) (Node b l' r') =
     Node a (add_enabled_tree l l') (add_enabled_tree r r')"

text \<open>
  The member \<^verbatim>\<open>BinaryTreeNode::add_enabled(pOtherSubTree, path)\<close>: the walk along the path
  splits until it meets an enabled node; at the end of the path a node that is not
  enabled receives the other tree.
\<close>

fun add_enabled_subtree :: "BinaryTreeNode \<Rightarrow> BinaryTreeNode \<Rightarrow> bool list \<Rightarrow> BinaryTreeNode" where
  "add_enabled_subtree pCurrentSubTree pOtherSubTree [] =
     (if \<not> is_enabled pCurrentSubTree then add_enabled_tree pCurrentSubTree pOtherSubTree
      else pCurrentSubTree)"
| "add_enabled_subtree pCurrentSubTree pOtherSubTree (b # path) =
     (if is_enabled pCurrentSubTree then pCurrentSubTree
      else
        (case split pCurrentSubTree of
           Node e l r \<Rightarrow>
             if b then Node e l (add_enabled_subtree r pOtherSubTree path)
             else Node e (add_enabled_subtree l pOtherSubTree path) r
         | Leaf e \<Rightarrow> Leaf e))"

text \<open>
  \<^verbatim>\<open>BinaryTreeNode::remove(pThisNode, pOtherNode)\<close>; the result is the new value of
  \<^verbatim>\<open>*pThisNode\<close>.  An enabled leaf facing an internal node is split, and the recursion
  goes on with its two new children, which are copies of the leaf.
\<close>

fun remove_nodes :: "BinaryTreeNode \<Rightarrow> BinaryTreeNode \<Rightarrow> BinaryTreeNode" where
  "remove_nodes (Leaf a) (Leaf b) =
     (if is_enabled (Leaf a) \<and> is_enabled (Leaf b) then Leaf false_value else Leaf a)"
| "remove_nodes (Node a l r) (Leaf b) =
     (if is_enabled (Leaf b) then make_leaf (Node a l r) false_value else Node a l r)"
| "remove_nodes (Leaf a) (Node b l' r') =
     (if is_enabled (Leaf a) then
        (case split (Leaf a) of
           Node e l r \<Rightarrow> Node e (remove_nodes l l') (remove_nodes r r')
         | Leaf e \<Rightarrow> Leaf e)
      else Leaf a)"
| "remove_nodes (Node a l r) (Node b l' r') =
     Node a (remove_nodes l l') (remove_nodes r r')"

text \<open>
  The second loop of \<^verbatim>\<open>GridTreeSet::remove(GridCell)\<close>, entered at an enabled leaf with the
  rest of the path: split and follow the path, then \<^verbatim>\<open>set_disabled\<close> at its end.
\<close>

fun remove_cell_split :: "BinaryTreeNode \<Rightarrow> bool list \<Rightarrow> BinaryTreeNode" where
  "remove_cell_split pCurrentPrimaryCell [] = set_disabled pCurrentPrimaryCell"
| "remove_cell_split pCurrentPrimaryCell (b # path) =
     (case split pCurrentPrimaryCell of
        Node e l r \<Rightarrow>
          if b then Node e l (remove_cell_split r path) else Node e (remove_cell_split l path) r
      | Leaf e \<Rightarrow> Leaf e)"

text \<open>
  What \<^verbatim>\<open>GridTreeSet::remove(GridCell)\<close> does from the node the alignment returns: the first
  loop follows the path down to a leaf or to its end; an enabled leaf is split further and
  the cell disabled, a leaf that is not enabled is left alone, and an internal node at the
  end of the path is made a disabled leaf.
\<close>

fun remove_cell_node :: "BinaryTreeNode \<Rightarrow> bool list \<Rightarrow> BinaryTreeNode" where
  "remove_cell_node (Leaf e) path =
     (if is_enabled (Leaf e) then remove_cell_split (Leaf e) path else Leaf e)"
| "remove_cell_node (Node e l r) [] = make_leaf (Node e l r) false_value"
| "remove_cell_node (Node e l r) (b # path) =
     (if b then Node e l (remove_cell_node r path) else Node e (remove_cell_node l path) r)"

text \<open>
  \<^verbatim>\<open>GridTreeSet::restrict_to_lower\<close> from the root, along the path to the root of the other
  subset: a disabled leaf ends the walk, any other leaf is split, and the branch the path
  does not take is made a disabled leaf.
\<close>

fun restrict_to_lower_loop ::
  "bool list \<Rightarrow> BinaryTreeNode \<Rightarrow> BinaryTreeNode \<Rightarrow> BinaryTreeNode" where
  "restrict_to_lower_loop [] pBinaryTreeNode other =
     (if is_enabled pBinaryTreeNode then copy_from pBinaryTreeNode other
      else if is_disabled pBinaryTreeNode then pBinaryTreeNode
      else restrict_nodes pBinaryTreeNode other)"
| "restrict_to_lower_loop (b # rootNodePath) pBinaryTreeNode other =
     (if is_leaf pBinaryTreeNode \<and> is_disabled pBinaryTreeNode then pBinaryTreeNode
      else
        (case split pBinaryTreeNode of
           Node e l r \<Rightarrow>
             if b then Node e (make_leaf l false_value) (restrict_to_lower_loop rootNodePath r other)
             else Node e (restrict_to_lower_loop rootNodePath l other) (make_leaf r false_value)
         | Leaf e \<Rightarrow> Leaf e))"

text \<open>\<^verbatim>\<open>GridTreeSet::remove_from_lower\<close> from the root, in the same way.\<close>

fun remove_from_lower_loop ::
  "bool list \<Rightarrow> BinaryTreeNode \<Rightarrow> BinaryTreeNode \<Rightarrow> BinaryTreeNode" where
  "remove_from_lower_loop [] pBinaryTreeNode other =
     (if is_disabled pBinaryTreeNode then pBinaryTreeNode
      else remove_nodes pBinaryTreeNode other)"
| "remove_from_lower_loop (b # rootNodePath) pBinaryTreeNode other =
     (if is_leaf pBinaryTreeNode \<and> is_disabled pBinaryTreeNode then pBinaryTreeNode
      else
        (case split pBinaryTreeNode of
           Node e l r \<Rightarrow>
             if b then Node e l (remove_from_lower_loop rootNodePath r other)
             else Node e (remove_from_lower_loop rootNodePath l other) r
         | Leaf e \<Rightarrow> Leaf e))"

text \<open>
  The loop of \<^verbatim>\<open>GridTreeSet::restrict_to_height\<close>: an enabled leaf is split, any other leaf
  ends the loop, and the branch the path does not take is made a disabled leaf.
\<close>

fun restrict_to_height_loop :: "bool list \<Rightarrow> BinaryTreeNode \<Rightarrow> BinaryTreeNode" where
  "restrict_to_height_loop [] pCurrentNode = pCurrentNode"
| "restrict_to_height_loop (b # pathToPCell) pCurrentNode =
     (if is_leaf pCurrentNode \<and> \<not> is_enabled pCurrentNode then pCurrentNode
      else
        (case split pCurrentNode of
           Node e l r \<Rightarrow>
             if b then Node e (make_leaf l false_value) (restrict_to_height_loop pathToPCell r)
             else Node e (restrict_to_height_loop pathToPCell l) (make_leaf r false_value)
         | Leaf e \<Rightarrow> Leaf e))"

subsection \<open>Construction, adjoining, removing and restricting on pavings\<close>

text \<open>
  The constructors \<^verbatim>\<open>GridTreeSet()\<close>, \<^verbatim>\<open>GridTreeSet(theGrid, enable)\<close>,
  \<^verbatim>\<open>GridTreeSet(theDimension, enable)\<close> and \<^verbatim>\<open>GridTreeSet(theGrid, theLatticeBox)\<close> create
  a paving with the empty word whose tree is the single node \<^verbatim>\<open>new BinaryTreeNode(enable)\<close>,
  at height 0 or at the height of a primary cell; so does
  \<^verbatim>\<open>GridTreeSet(theGrid, maxPCHeight, new BinaryTreeNode())\<close> in \<^verbatim>\<open>join\<close>, \<^verbatim>\<open>intersection\<close>
  and \<^verbatim>\<open>difference\<close>, where the default flag is false.
\<close>

definition new_GridTreeSet :: "Grid \<Rightarrow> nat \<Rightarrow> bool \<Rightarrow> GridTreeSet" where
  "new_GridTreeSet theGrid theHeight enable =
     \<lparr>the_grid_cell = \<lparr>the_grid = theGrid, the_height = theHeight, the_word = []\<rparr>,
      p_root_tree_node = Leaf (tribool_of_bool enable)\<rparr>"

text \<open>
  A \<^verbatim>\<open>GridTreeSubset\<close> handed to an operation is a view of a paving: the subtree at the end of
  a path, with the cell of that node.
\<close>

definition subset_at :: "GridTreeSet \<Rightarrow> bool list \<Rightarrow> GridTreeSubset" where
  "subset_at S p =
     \<lparr>the_grid_cell = (the_grid_cell S)\<lparr>the_word := the_word (the_grid_cell S) @ p\<rparr>,
      p_root_tree_node = node_at p (p_root_tree_node S)\<rparr>"

text \<open>
  The paving an operation leaves behind, whether it returns or raises: an error comes with
  the paving as it is when the error is raised.
\<close>

fun paving_of :: "error \<times> GridTreeSet + GridTreeSet \<Rightarrow> GridTreeSet" where
  "paving_of (Inl (err, S)) = S"
| "paving_of (Inr S) = S"

text \<open>
  Modelled from the spec: \<^verbatim>\<open>GridTreeSet::adjoin(GridCell)\<close> is in the missing header.
  "align_with_cell(height): descend from this tree's root following the primary-cell path
  to the argument's height; split leaves encountered along the way unless they're already
  enabled (in which case the adjoin is a no-op: early stop).  At the target node, apply
  tree-level add_enabled(path)".
\<close>

definition adjoin_cell :: "GridTreeSet \<Rightarrow> GridCell \<Rightarrow> error \<times> GridTreeSet + GridTreeSet" where
  "adjoin_cell S theCell =
     (case align_with_cell S (the_height theCell) True False False of
        Inl err \<Rightarrow> Inl (err, S)
      | Inr (S1, pBinaryTreeNode, has_stopped) \<Rightarrow>
          if \<not> has_stopped then
            Inr (S1\<lparr>p_root_tree_node :=
                   modify_at pBinaryTreeNode (\<lambda>n. add_enabled_path n (the_word theCell))
                     (p_root_tree_node S1)\<rparr>)
          else Inr S1)"

text \<open>
  Modelled from the spec: \<^verbatim>\<open>GridTreeSet::adjoin(GridTreeSubset)\<close> is in the missing header;
  as \<open>adjoin_cell\<close>, with "add_enabled(subtree)" at the target node.
\<close>

definition adjoin_subset :: "GridTreeSet \<Rightarrow> GridTreeSubset \<Rightarrow> error \<times> GridTreeSet + GridTreeSet" where
  "adjoin_subset S theOtherSubPaving =
     (case align_with_cell S (the_height (the_grid_cell theOtherSubPaving)) True False False of
        Inl err \<Rightarrow> Inl (err, S)
      | Inr (S1, pBinaryTreeNode, has_stopped) \<Rightarrow>
          if \<not> has_stopped then
            Inr (S1\<lparr>p_root_tree_node :=
                   modify_at pBinaryTreeNode
                     (\<lambda>n. add_enabled_subtree n (p_root_tree_node theOtherSubPaving)
                            (the_word (the_grid_cell theOtherSubPaving)))
                     (p_root_tree_node S1)\<rparr>)
          else Inr S1)"

text \<open>\<^verbatim>\<open>GridTreeSet::remove(GridCell)\<close>; \<^verbatim>\<open>ARIADNE_ASSERT\<close> raises \<open>AssertionFailed\<close>.\<close>

definition remove_cell :: "GridTreeSet \<Rightarrow> GridCell \<Rightarrow> error \<times> GridTreeSet + GridTreeSet" where
  "remove_cell S theCell =
     (if the_grid (the_grid_cell S) \<noteq> the_grid theCell then Inl (AssertionFailed, S)
      else
        (case align_with_cell S (the_height theCell) False True False of
           Inl err \<Rightarrow> Inl (err, S)
         | Inr (S1, pCurrentPrimaryCell, has_stopped) \<Rightarrow>
             if \<not> has_stopped then
               Inr (S1\<lparr>p_root_tree_node :=
                      modify_at pCurrentPrimaryCell (\<lambda>n. remove_cell_node n (the_word theCell))
                        (p_root_tree_node S1)\<rparr>)
             else Inr S1))"

definition restrict_to_lower :: "GridTreeSet \<Rightarrow> GridTreeSubset \<Rightarrow> GridTreeSet" where
  "restrict_to_lower S theOtherSubPaving =
     (let rootNodePath =
            primary_cell_path (dimension (the_grid (the_grid_cell S)))
              (the_height (the_grid_cell S)) (the_height (the_grid_cell theOtherSubPaving))
            @ the_word (the_grid_cell theOtherSubPaving)
      in S\<lparr>p_root_tree_node :=
             restrict_to_lower_loop rootNodePath (p_root_tree_node S)
               (p_root_tree_node theOtherSubPaving)\<rparr>)"

definition remove_from_lower :: "GridTreeSet \<Rightarrow> GridTreeSubset \<Rightarrow> GridTreeSet" where
  "remove_from_lower S theOtherSubPaving =
     (let rootNodePath =
            primary_cell_path (dimension (the_grid (the_grid_cell S)))
              (the_height (the_grid_cell S)) (the_height (the_grid_cell theOtherSubPaving))
            @ the_word (the_grid_cell theOtherSubPaving)
      in S\<lparr>p_root_tree_node :=
             remove_from_lower_loop rootNodePath (p_root_tree_node S)
               (p_root_tree_node theOtherSubPaving)\<rparr>)"

text \<open>\<^verbatim>\<open>GridTreeSet::restrict(GridTreeSubset)\<close>.\<close>

definition restrict_subset ::
  "GridTreeSet \<Rightarrow> GridTreeSubset \<Rightarrow> error \<times> GridTreeSet + GridTreeSet" where
  "restrict_subset S theOtherSubPaving =
     (let thisPavingPCellHeight = the_height (the_grid_cell S);
          otherPavingPCellHeight = the_height (the_grid_cell theOtherSubPaving)
      in if the_grid (the_grid_cell S) \<noteq> the_grid (the_grid_cell theOtherSubPaving)
         then Inl (AssertionFailed, S)
         else if thisPavingPCellHeight < otherPavingPCellHeight then
           (case up_to_primary_cell S otherPavingPCellHeight of
              Inl err \<Rightarrow> Inl (err, S)
            | Inr S1 \<Rightarrow> Inr (restrict_to_lower S1 theOtherSubPaving))
         else Inr (restrict_to_lower S theOtherSubPaving))"

text \<open>\<^verbatim>\<open>GridTreeSet::remove(GridTreeSubset)\<close>.\<close>

definition remove_subset ::
  "GridTreeSet \<Rightarrow> GridTreeSubset \<Rightarrow> error \<times> GridTreeSet + GridTreeSet" where
  "remove_subset S theOtherSubPaving =
     (let thisPavingPCellHeight = the_height (the_grid_cell S);
          otherPavingPCellHeight = the_height (the_grid_cell theOtherSubPaving)
      in if the_grid (the_grid_cell S) \<noteq> the_grid (the_grid_cell theOtherSubPaving)
         then Inl (AssertionFailed, S)
         else if thisPavingPCellHeight < otherPavingPCellHeight then
           (case up_to_primary_cell S otherPavingPCellHeight of
              Inl err \<Rightarrow> Inl (err, S)
            | Inr S1 \<Rightarrow> Inr (remove_from_lower S1 theOtherSubPaving))
         else Inr (remove_from_lower S theOtherSubPaving))"

text \<open>\<^verbatim>\<open>GridTreeSet::restrict_to_height\<close>; the height of the root cell stays as it is.\<close>

definition restrict_to_height :: "GridTreeSet \<Rightarrow> nat \<Rightarrow> GridTreeSet" where
  "restrict_to_height S theHeight =
     (let thisPavingPCellHeight = the_height (the_grid_cell S) in
      if thisPavingPCellHeight > theHeight then
        (let pathToPCell = primary_cell_path (dimension (the_grid (the_grid_cell S)))
                             thisPavingPCellHeight theHeight
         in S\<lparr>p_root_tree_node := restrict_to_height_loop pathToPCell (p_root_tree_node S)\<rparr>)
      else S)"

text \<open>\<^verbatim>\<open>GridTreeSet::clear\<close>: the paving becomes \<^verbatim>\<open>GridTreeSet(this->grid())\<close>.\<close>

definition clear :: "GridTreeSet \<Rightarrow> GridTreeSet" where
  "clear S = new_GridTreeSet (the_grid (the_grid_cell S)) 0 False"

text \<open>
  Modelled from the spec: \<^verbatim>\<open>mince_to_tree_depth\<close> and \<^verbatim>\<open>recombine\<close> of a paving are in the
  missing header; they "delegate to BinaryTreeNode".
\<close>

definition mince_to_tree_depth :: "GridTreeSet \<Rightarrow> nat \<Rightarrow> GridTreeSet" where
  "mince_to_tree_depth S theNewDepth =
     S\<lparr>p_root_tree_node := mince_node (p_root_tree_node S) theNewDepth\<rparr>"

definition recombine :: "GridTreeSet \<Rightarrow> GridTreeSet" where
  "recombine S = S\<lparr>p_root_tree_node := recombine_node (p_root_tree_node S)\<rparr>"

text \<open>
  The free functions \<^verbatim>\<open>join\<close>, \<^verbatim>\<open>intersection\<close> and \<^verbatim>\<open>difference\<close>: a new empty paving at the
  greater of the two heights, to which the first set is adjoined; then the second set is
  adjoined, or the result restricted to it, or it is removed from the result.
\<close>

definition join :: "GridTreeSubset \<Rightarrow> GridTreeSubset \<Rightarrow> error + GridTreeSet" where
  "join theSet1 theSet2 =
     (if the_grid (the_grid_cell theSet1) \<noteq> the_grid (the_grid_cell theSet2)
      then Inl AssertionFailed
      else
        (let heightSet1 = the_height (the_grid_cell theSet1);
             heightSet2 = the_height (the_grid_cell theSet2);
             maxPCHeight = (if heightSet1 < heightSet2 then heightSet2 else heightSet1);
             resultSet = new_GridTreeSet (the_grid (the_grid_cell theSet1)) maxPCHeight False
         in case adjoin_subset resultSet theSet1 of
              Inl (err, S) \<Rightarrow> Inl err
            | Inr resultSet1 \<Rightarrow>
                (case adjoin_subset resultSet1 theSet2 of
                   Inl (err, S) \<Rightarrow> Inl err
                 | Inr resultSet2 \<Rightarrow> Inr resultSet2)))"

definition intersection :: "GridTreeSubset \<Rightarrow> GridTreeSubset \<Rightarrow> error + GridTreeSet" where
  "intersection theSet1 theSet2 =
     (if the_grid (the_grid_cell theSet1) \<noteq> the_grid (the_grid_cell theSet2)
      then Inl AssertionFailed
      else
        (let heightSet1 = the_height (the_grid_cell theSet1);
             heightSet2 = the_height (the_grid_cell theSet2);
             maxPCHeight = (if heightSet1 < heightSet2 then heightSet2 else heightSet1);
             resultSet = new_GridTreeSet (the_grid (the_grid_cell theSet1)) maxPCHeight False
         in case adjoin_subset resultSet theSet1 of
              Inl (err, S) \<Rightarrow> Inl err
            | Inr resultSet1 \<Rightarrow>
                (case restrict_subset resultSet1 theSet2 of
                   Inl (err, S) \<Rightarrow> Inl err
                 | Inr resultSet2 \<Rightarrow> Inr resultSet2)))"

definition difference :: "GridTreeSubset \<Rightarrow> GridTreeSubset \<Rightarrow> error + GridTreeSet" where
  "difference theSet1 theSet2 =
     (if the_grid (the_grid_cell theSet1) \<noteq> the_grid (the_grid_cell theSet2)
      then Inl AssertionFailed
      else
        (let heightSet1 = the_height (the_grid_cell theSet1);
             heightSet2 = the_height (the_grid_cell theSet2);
             maxPCHeight = (if heightSet1 < heightSet2 then heightSet2 else heightSet1);
             resultSet = new_GridTreeSet (the_grid (the_grid_cell theSet1)) maxPCHeight False
         in case adjoin_subset resultSet theSet1 of
              Inl (err, S) \<Rightarrow> Inl err
            | Inr resultSet1 \<Rightarrow>
                (case remove_subset resultSet1 theSet2 of
                   Inl (err, S) \<Rightarrow> Inl err
                 | Inr resultSet2 \<Rightarrow> Inr resultSet2)))"

subsection \<open>Lower and inner approximation\<close>

text \<open>
  The sets are seen through their interfaces: an \<^verbatim>\<open>OvertSetInterface\<close> gives its dimension
  and the test \<^verbatim>\<open>overlaps(Box)\<close>, and the dynamic cast to \<^verbatim>\<open>OpenSetInterface\<close> is the optional
  member \<^verbatim>\<open>covers(Box)\<close>; an \<^verbatim>\<open>OpenSetInterface\<close> gives both tests.  A \<^verbatim>\<open>SetCheckerInterface\<close>
  is its function \<^verbatim>\<open>check(Box)\<close>.
\<close>

record OvertSet =
  overt_dimension :: nat
  overt_overlaps :: "Box \<Rightarrow> tribool"
  overt_covers :: "(Box \<Rightarrow> tribool) option"

record OpenSet =
  open_dimension :: nat
  open_covers :: "Box \<Rightarrow> tribool"
  open_overlaps :: "Box \<Rightarrow> tribool"

text \<open>
  A recursion that is handed a pointer to a node of the tree: it runs on the node at the
  end of the path, and the node it leaves takes that place.  An error leaves the paving as
  it was handed over.
\<close>

definition on_node ::
  "bool list \<Rightarrow> (BinaryTreeNode \<Rightarrow> error + BinaryTreeNode) \<Rightarrow> GridTreeSet
     \<Rightarrow> error \<times> GridTreeSet + GridTreeSet" where
  "on_node p f S =
     (case f (node_at p (p_root_tree_node S)) of
        Inl err \<Rightarrow> Inl (err, S)
      | Inr n \<Rightarrow> Inr (S\<lparr>p_root_tree_node := modify_at p (\<lambda>old. n) (p_root_tree_node S)\<rparr>))"

text \<open>
  \<^verbatim>\<open>_adjoin_lower_approximation\<close> for an \<^verbatim>\<open>OvertSetInterface\<close>.  The box of the current cell is
  that of \<^verbatim>\<open>GridCell(theGrid, primary_cell_height, *pPath)\<close>; the path is passed along
  instead of being pushed and popped.
\<close>

function adjoin_lower_approximation_overt_node ::
  "Grid \<Rightarrow> BinaryTreeNode \<Rightarrow> nat \<Rightarrow> nat \<Rightarrow> (Box \<Rightarrow> tribool) \<Rightarrow> bool list
     \<Rightarrow> error + BinaryTreeNode" where
  "adjoin_lower_approximation_overt_node theGrid pBinaryTreeNode primary_cell_height
       max_mince_depth overlaps pPath =
     (case compute_box theGrid primary_cell_height pPath of
        Inl err \<Rightarrow> Inl err
      | Inr theCurrentCellBox \<Rightarrow>
          if definitely (overlaps theCurrentCellBox) then
            if length pPath \<ge> max_mince_depth then
              (if \<not> has_enabled pBinaryTreeNode then Inr (make_leaf pBinaryTreeNode true_value)
               else Inr pBinaryTreeNode)
            else
              (case split pBinaryTreeNode of
                 Node e l r \<Rightarrow>
                   (case adjoin_lower_approximation_overt_node theGrid l primary_cell_height
                           max_mince_depth overlaps (pPath @ [False]) of
                      Inl err \<Rightarrow> Inl err
                    | Inr left_node \<Rightarrow>
                        (case adjoin_lower_approximation_overt_node theGrid r primary_cell_height
                                max_mince_depth overlaps (pPath @ [True]) of
                           Inl err \<Rightarrow> Inl err
                         | Inr right_node \<Rightarrow> Inr (Node e left_node right_node)))
               | Leaf e \<Rightarrow> Inr (Leaf e))
          else Inr pBinaryTreeNode)"
  by pat_completeness auto
termination
  by (relation "measure (\<lambda>(theGrid, n, primary_cell_height, max_mince_depth, overlaps, pPath).
                  max_mince_depth - length pPath)") auto

declare adjoin_lower_approximation_overt_node.simps [simp del]

text \<open>
  \<^verbatim>\<open>_adjoin_lower_approximation\<close> for an \<^verbatim>\<open>OpenSetInterface\<close>.  A covered cell becomes an enabled
  leaf and is minced down to the maximal depth; the recursion starts from the empty path
  and goes down only while the path is shorter than \<open>max_mince_depth\<close>, so the unsigned
  difference \<^verbatim>\<open>max_mince_depth - pPath->size()\<close> does not wrap around.
\<close>

function adjoin_lower_approximation_open_node ::
  "Grid \<Rightarrow> BinaryTreeNode \<Rightarrow> nat \<Rightarrow> nat \<Rightarrow> (Box \<Rightarrow> tribool) \<Rightarrow> (Box \<Rightarrow> tribool) \<Rightarrow> bool list
     \<Rightarrow> error + BinaryTreeNode" where
  "adjoin_lower_approximation_open_node theGrid pBinaryTreeNode primary_cell_height
       max_mince_depth covers_box overlaps pPath =
     (case compute_box theGrid primary_cell_height pPath of
        Inl err \<Rightarrow> Inl err
      | Inr theCurrentCellBox \<Rightarrow>
          if definitely (covers_box theCurrentCellBox) then
            Inr (mince_node (make_leaf pBinaryTreeNode true_value)
                   (max_mince_depth - length pPath))
          else if definitely (overlaps theCurrentCellBox) then
            if length pPath \<ge> max_mince_depth then
              (if is_leaf pBinaryTreeNode then Inr (set_enabled pBinaryTreeNode)
               else Inr pBinaryTreeNode)
            else
              (case split pBinaryTreeNode of
                 Node e l r \<Rightarrow>
                   (case adjoin_lower_approximation_open_node theGrid l primary_cell_height
                           max_mince_depth covers_box overlaps (pPath @ [False]) of
                      Inl err \<Rightarrow> Inl err
                    | Inr left_node \<Rightarrow>
                        (case adjoin_lower_approximation_open_node theGrid r primary_cell_height
                                max_mince_depth covers_box overlaps (pPath @ [True]) of
                           Inl err \<Rightarrow> Inl err
                         | Inr right_node \<Rightarrow> Inr (Node e left_node right_node)))
               | Leaf e \<Rightarrow> Inr (Leaf e))
          else Inr pBinaryTreeNode)"
  by pat_completeness auto
termination
  by (relation "measure (\<lambda>(theGrid, n, primary_cell_height, max_mince_depth, covers_box, overlaps,
                           pPath). max_mince_depth - length pPath)") auto

declare adjoin_lower_approximation_open_node.simps [simp del]

text \<open>\<^verbatim>\<open>_adjoin_inner_approximation\<close>.\<close>

function adjoin_inner_approximation_node ::
  "Grid \<Rightarrow> BinaryTreeNode \<Rightarrow> nat \<Rightarrow> nat \<Rightarrow> OpenSet \<Rightarrow> bool list \<Rightarrow> error + BinaryTreeNode" where
  "adjoin_inner_approximation_node theGrid pBinaryTreeNode primary_cell_height max_mince_depth
       theSet pPath =
     (case compute_box theGrid primary_cell_height pPath of
        Inl err \<Rightarrow> Inl err
      | Inr theCurrentCellBox \<Rightarrow>
          if \<not> is_enabled pBinaryTreeNode then
            if definitely (open_covers theSet theCurrentCellBox) then
              Inr (make_leaf pBinaryTreeNode true_value)
            else if possibly (open_overlaps theSet theCurrentCellBox) then
              if length pPath \<ge> max_mince_depth then Inr pBinaryTreeNode
              else
                (case split pBinaryTreeNode of
                   Node e l r \<Rightarrow>
                     (case adjoin_inner_approximation_node theGrid l primary_cell_height
                             max_mince_depth theSet (pPath @ [False]) of
                        Inl err \<Rightarrow> Inl err
                      | Inr left_node \<Rightarrow>
                          (case adjoin_inner_approximation_node theGrid r primary_cell_height
                                  max_mince_depth theSet (pPath @ [True]) of
                             Inl err \<Rightarrow> Inl err
                           | Inr right_node \<Rightarrow> Inr (Node e left_node right_node)))
                 | Leaf e \<Rightarrow> Inr (Leaf e))
            else Inr pBinaryTreeNode
          else Inr pBinaryTreeNode)"
  by pat_completeness auto
termination
  by (relation "measure (\<lambda>(theGrid, n, primary_cell_height, max_mince_depth, theSet, pPath).
                  max_mince_depth - length pPath)") auto

declare adjoin_inner_approximation_node.simps [simp del]

text \<open>\<^verbatim>\<open>GridTreeSet::adjoin_lower_approximation(theSet, height, numSubdivInDim)\<close>.\<close>

definition adjoin_lower_approximation_height ::
  "GridTreeSet \<Rightarrow> OvertSet \<Rightarrow> nat \<Rightarrow> nat \<Rightarrow> error \<times> GridTreeSet + GridTreeSet" where
  "adjoin_lower_approximation_height S theSet height numSubdivInDim =
     (if overt_dimension theSet \<noteq> dimension (the_grid (the_grid_cell S))
      then Inl (AssertionFailed, S)
      else
        (case align_with_cell S height True False False of
           Inl err \<Rightarrow> Inl (err, S)
         | Inr (S1, pBinaryTreeNode, has_stopped) \<Rightarrow>
             if \<not> has_stopped then
               (let max_mince_depth = zero_cell_subdivisions_to_tree_subdivisions
                      (dimension (the_grid (the_grid_cell S1))) numSubdivInDim height 0
                in case overt_covers theSet of
                     Some covers_box \<Rightarrow>
                       on_node pBinaryTreeNode
                         (\<lambda>n. adjoin_lower_approximation_open_node (the_grid (the_grid_cell S1)) n
                                height max_mince_depth covers_box (overt_overlaps theSet) [])
                         S1
                   | None \<Rightarrow>
                       on_node pBinaryTreeNode
                         (\<lambda>n. adjoin_lower_approximation_overt_node (the_grid (the_grid_cell S1)) n
                                height max_mince_depth (overt_overlaps theSet) [])
                         S1)
             else Inr S1))"

text \<open>
  \<^verbatim>\<open>GridTreeSet::adjoin_lower_approximation(theSet, theBoundingBox, numSubdivInDim)\<close>, which
  the variant for a \<^verbatim>\<open>LocatedSetInterface\<close> calls with the bounding box of the set.  \<open>None\<close>
  is a search for the enclosing primary cell that does not end.
\<close>

definition adjoin_lower_approximation_box ::
  "GridTreeSet \<Rightarrow> OvertSet \<Rightarrow> Box \<Rightarrow> nat \<Rightarrow> (error \<times> GridTreeSet + GridTreeSet) option" where
  "adjoin_lower_approximation_box S theSet theBoundingBox numSubdivInDim =
     (let theGrid = the_grid (the_grid_cell S) in
      if overt_dimension theSet \<noteq> dimension theGrid then Some (Inl (AssertionFailed, S))
      else if length theBoundingBox \<noteq> dimension theGrid then Some (Inl (AssertionFailed, S))
      else
        (case smallest_enclosing_primary_cell_height theBoundingBox theGrid of
           None \<Rightarrow> None
         | Some height \<Rightarrow>
             Some (adjoin_lower_approximation_height S theSet height numSubdivInDim)))"

text \<open>\<^verbatim>\<open>GridTreeSet::adjoin_inner_approximation(theSet, height, numSubdivInDim)\<close>.\<close>

definition adjoin_inner_approximation_height ::
  "GridTreeSet \<Rightarrow> OpenSet \<Rightarrow> nat \<Rightarrow> nat \<Rightarrow> error \<times> GridTreeSet + GridTreeSet" where
  "adjoin_inner_approximation_height S theSet height numSubdivInDim =
     (if open_dimension theSet \<noteq> dimension (the_grid (the_grid_cell S))
      then Inl (AssertionFailed, S)
      else
        (case align_with_cell S height True False False of
           Inl err \<Rightarrow> Inl (err, S)
         | Inr (S1, pBinaryTreeNode, has_stopped) \<Rightarrow>
             if \<not> has_stopped then
               (let max_mince_depth = zero_cell_subdivisions_to_tree_subdivisions
                      (dimension (the_grid (the_grid_cell S1))) numSubdivInDim height 0
                in on_node pBinaryTreeNode
                     (\<lambda>n. adjoin_inner_approximation_node (the_grid (the_grid_cell S1)) n height
                            max_mince_depth theSet [])
                     S1)
             else Inr S1))"

text \<open>\<^verbatim>\<open>GridTreeSet::adjoin_inner_approximation(theSet, theBoundingBox, numSubdivInDim)\<close>.\<close>

definition adjoin_inner_approximation_box ::
  "GridTreeSet \<Rightarrow> OpenSet \<Rightarrow> Box \<Rightarrow> nat \<Rightarrow> (error \<times> GridTreeSet + GridTreeSet) option" where
  "adjoin_inner_approximation_box S theSet theBoundingBox numSubdivInDim =
     (let theGrid = the_grid (the_grid_cell S) in
      if open_dimension theSet \<noteq> dimension theGrid then Some (Inl (AssertionFailed, S))
      else if length theBoundingBox \<noteq> dimension theGrid then Some (Inl (AssertionFailed, S))
      else
        (case smallest_enclosing_primary_cell_height theBoundingBox theGrid of
           None \<Rightarrow> None
         | Some height \<Rightarrow>
             Some (adjoin_inner_approximation_height S theSet height numSubdivInDim)))"

subsection \<open>Restricting to and removing a set given by tests\<close>

text \<open>
  What \<^verbatim>\<open>_inner_restrict\<close> and \<^verbatim>\<open>_outer_remove\<close> do with a cell at the maximal depth: the node
  becomes a disabled leaf.  \<^verbatim>\<open>_outer_restrict\<close> and \<^verbatim>\<open>_inner_remove\<close> leave it as it is.
\<close>

definition disable_node :: "BinaryTreeNode \<Rightarrow> BinaryTreeNode" where
  "disable_node pBinaryTreeNode =
     (if \<not> is_leaf pBinaryTreeNode then make_leaf pBinaryTreeNode false_value
      else set_disabled pBinaryTreeNode)"

definition leave_node :: "BinaryTreeNode \<Rightarrow> BinaryTreeNode" where
  "leave_node pBinaryTreeNode = pBinaryTreeNode"

text \<open>
  The body shared by the two \<^verbatim>\<open>_outer_restrict\<close>, the two \<^verbatim>\<open>_inner_restrict\<close>, the two
  \<^verbatim>\<open>_outer_remove\<close> and the two \<^verbatim>\<open>_inner_remove\<close>.  They differ in the test under which the
  cell is left unchanged (\<open>unchanged\<close>), the test under which it is made a disabled leaf
  (\<open>disabled\<close>), and what happens at the maximal depth (\<open>at_max_depth\<close>).
\<close>

function restrict_remove_body ::
  "(Box \<Rightarrow> bool) \<Rightarrow> (Box \<Rightarrow> bool) \<Rightarrow> (BinaryTreeNode \<Rightarrow> BinaryTreeNode) \<Rightarrow> Grid \<Rightarrow> BinaryTreeNode
     \<Rightarrow> nat \<Rightarrow> nat \<Rightarrow> bool list \<Rightarrow> error + BinaryTreeNode" where
  "restrict_remove_body unchanged disabled at_max_depth theGrid pBinaryTreeNode
       primary_cell_height max_mince_depth pPath =
     (case compute_box theGrid primary_cell_height pPath of
        Inl err \<Rightarrow> Inl err
      | Inr theCurrentCellBox \<Rightarrow>
          if unchanged theCurrentCellBox then Inr pBinaryTreeNode
          else if disabled theCurrentCellBox then Inr (make_leaf pBinaryTreeNode false_value)
          else if length pPath < max_mince_depth then
            (case split pBinaryTreeNode of
               Node e l r \<Rightarrow>
                 (case restrict_remove_body unchanged disabled at_max_depth theGrid l
                         primary_cell_height max_mince_depth (pPath @ [False]) of
                    Inl err \<Rightarrow> Inl err
                  | Inr left_node \<Rightarrow>
                      (case restrict_remove_body unchanged disabled at_max_depth theGrid r
                              primary_cell_height max_mince_depth (pPath @ [True]) of
                         Inl err \<Rightarrow> Inl err
                       | Inr right_node \<Rightarrow>
                           if is_enabled left_node \<and> is_enabled right_node
                           then Inr (make_leaf (Node e left_node right_node) true_value)
                           else Inr (Node e left_node right_node)))
             | Leaf e \<Rightarrow> Inr (Leaf e))
          else Inr (at_max_depth pBinaryTreeNode))"
  by pat_completeness auto
termination
  by (relation "measure (\<lambda>(unchanged, disabled, at_max_depth, theGrid, n, primary_cell_height,
                           max_mince_depth, pPath). max_mince_depth - length pPath)") auto

declare restrict_remove_body.simps [simp del]

text \<open>The eight recursions, for a \<^verbatim>\<open>SetCheckerInterface\<close> and for an \<^verbatim>\<open>OpenSetInterface\<close>.\<close>

definition outer_restrict_checker_node ::
  "Grid \<Rightarrow> BinaryTreeNode \<Rightarrow> nat \<Rightarrow> nat \<Rightarrow> (Box \<Rightarrow> tribool) \<Rightarrow> bool list \<Rightarrow> error + BinaryTreeNode" where
  "outer_restrict_checker_node theGrid n primary_cell_height max_mince_depth check pPath =
     restrict_remove_body (\<lambda>box. definitely (check box)) (\<lambda>box. \<not> possibly (check box)) leave_node
       theGrid n primary_cell_height max_mince_depth pPath"

definition outer_restrict_open_node ::
  "Grid \<Rightarrow> BinaryTreeNode \<Rightarrow> nat \<Rightarrow> nat \<Rightarrow> OpenSet \<Rightarrow> bool list \<Rightarrow> error + BinaryTreeNode" where
  "outer_restrict_open_node theGrid n primary_cell_height max_mince_depth theSet pPath =
     restrict_remove_body (\<lambda>box. definitely (open_covers theSet box))
       (\<lambda>box. \<not> possibly (open_overlaps theSet box)) leave_node
       theGrid n primary_cell_height max_mince_depth pPath"

definition inner_restrict_checker_node ::
  "Grid \<Rightarrow> BinaryTreeNode \<Rightarrow> nat \<Rightarrow> nat \<Rightarrow> (Box \<Rightarrow> tribool) \<Rightarrow> bool list \<Rightarrow> error + BinaryTreeNode" where
  "inner_restrict_checker_node theGrid n primary_cell_height max_mince_depth check pPath =
     restrict_remove_body (\<lambda>box. definitely (check box)) (\<lambda>box. \<not> possibly (check box)) disable_node
       theGrid n primary_cell_height max_mince_depth pPath"

definition inner_restrict_open_node ::
  "Grid \<Rightarrow> BinaryTreeNode \<Rightarrow> nat \<Rightarrow> nat \<Rightarrow> OpenSet \<Rightarrow> bool list \<Rightarrow> error + BinaryTreeNode" where
  "inner_restrict_open_node theGrid n primary_cell_height max_mince_depth theSet pPath =
     restrict_remove_body (\<lambda>box. definitely (open_covers theSet box))
       (\<lambda>box. \<not> possibly (open_overlaps theSet box)) disable_node
       theGrid n primary_cell_height max_mince_depth pPath"

definition outer_remove_checker_node ::
  "Grid \<Rightarrow> BinaryTreeNode \<Rightarrow> nat \<Rightarrow> nat \<Rightarrow> (Box \<Rightarrow> tribool) \<Rightarrow> bool list \<Rightarrow> error + BinaryTreeNode" where
  "outer_remove_checker_node theGrid n primary_cell_height max_mince_depth check pPath =
     restrict_remove_body (\<lambda>box. \<not> possibly (check box)) (\<lambda>box. definitely (check box)) disable_node
       theGrid n primary_cell_height max_mince_depth pPath"

definition outer_remove_open_node ::
  "Grid \<Rightarrow> BinaryTreeNode \<Rightarrow> nat \<Rightarrow> nat \<Rightarrow> OpenSet \<Rightarrow> bool list \<Rightarrow> error + BinaryTreeNode" where
  "outer_remove_open_node theGrid n primary_cell_height max_mince_depth theSet pPath =
     restrict_remove_body (\<lambda>box. \<not> possibly (open_overlaps theSet box))
       (\<lambda>box. definitely (open_covers theSet box)) disable_node
       theGrid n primary_cell_height max_mince_depth pPath"

definition inner_remove_checker_node ::
  "Grid \<Rightarrow> BinaryTreeNode \<Rightarrow> nat \<Rightarrow> nat \<Rightarrow> (Box \<Rightarrow> tribool) \<Rightarrow> bool list \<Rightarrow> error + BinaryTreeNode" where
  "inner_remove_checker_node theGrid n primary_cell_height max_mince_depth check pPath =
     restrict_remove_body (\<lambda>box. \<not> possibly (check box)) (\<lambda>box. definitely (check box)) leave_node
       theGrid n primary_cell_height max_mince_depth pPath"

definition inner_remove_open_node ::
  "Grid \<Rightarrow> BinaryTreeNode \<Rightarrow> nat \<Rightarrow> nat \<Rightarrow> OpenSet \<Rightarrow> bool list \<Rightarrow> error + BinaryTreeNode" where
  "inner_remove_open_node theGrid n primary_cell_height max_mince_depth theSet pPath =
     restrict_remove_body (\<lambda>box. \<not> possibly (open_overlaps theSet box))
       (\<lambda>box. definitely (open_covers theSet box)) leave_node
       theGrid n primary_cell_height max_mince_depth pPath"

text \<open>
  Modelled from the spec: \<^verbatim>\<open>GridTreeSubset::empty\<close> is in the missing header.  A subset is
  empty when its tree has no enabled leaf ("size = count of enabled leaves").
\<close>

definition subset_empty :: "GridTreeSubset \<Rightarrow> bool" where
  "subset_empty S = (\<not> has_enabled (p_root_tree_node S))"

text \<open>
  The public \<^verbatim>\<open>outer_restrict\<close>, \<^verbatim>\<open>inner_restrict\<close>, \<^verbatim>\<open>outer_remove\<close> and \<^verbatim>\<open>inner_remove\<close> for an
  open set have one shape: two assertions, then on a paving that is not empty the
  recursion from the root, down to the depth of the tree.
\<close>

definition with_open_set ::
  "(Grid \<Rightarrow> BinaryTreeNode \<Rightarrow> nat \<Rightarrow> nat \<Rightarrow> OpenSet \<Rightarrow> bool list \<Rightarrow> error + BinaryTreeNode)
     \<Rightarrow> GridTreeSet \<Rightarrow> OpenSet \<Rightarrow> error \<times> GridTreeSet + GridTreeSet" where
  "with_open_set recursion S theSet =
     (if dimension (the_grid (the_grid_cell S)) = 0 then Inl (AssertionFailed, S)
      else if open_dimension theSet \<noteq> dimension (the_grid (the_grid_cell S))
        then Inl (AssertionFailed, S)
      else if \<not> subset_empty S then
        (let height = the_height (the_grid_cell S) in
         on_node []
           (\<lambda>n. recursion (the_grid (the_grid_cell S)) n height (depth (p_root_tree_node S))
                  theSet [])
           S)
      else Inr S)"

text \<open>
  The same for a checker and an accuracy: one assertion, and the maximal depth comes from
  the accuracy.
\<close>

definition with_checker ::
  "(Grid \<Rightarrow> BinaryTreeNode \<Rightarrow> nat \<Rightarrow> nat \<Rightarrow> (Box \<Rightarrow> tribool) \<Rightarrow> bool list \<Rightarrow> error + BinaryTreeNode)
     \<Rightarrow> GridTreeSet \<Rightarrow> (Box \<Rightarrow> tribool) \<Rightarrow> nat \<Rightarrow> error \<times> GridTreeSet + GridTreeSet" where
  "with_checker recursion S check accuracy =
     (if dimension (the_grid (the_grid_cell S)) = 0 then Inl (AssertionFailed, S)
      else if \<not> subset_empty S then
        (let height = the_height (the_grid_cell S);
             max_mince_depth = zero_cell_subdivisions_to_tree_subdivisions
               (dimension (the_grid (the_grid_cell S))) accuracy height 0
         in on_node []
              (\<lambda>n. recursion (the_grid (the_grid_cell S)) n height max_mince_depth check [])
              S)
      else Inr S)"

definition outer_restrict_open :: "GridTreeSet \<Rightarrow> OpenSet \<Rightarrow> error \<times> GridTreeSet + GridTreeSet" where
  "outer_restrict_open S theSet = with_open_set outer_restrict_open_node S theSet"

definition inner_restrict_open :: "GridTreeSet \<Rightarrow> OpenSet \<Rightarrow> error \<times> GridTreeSet + GridTreeSet" where
  "inner_restrict_open S theSet = with_open_set inner_restrict_open_node S theSet"

definition outer_remove_open :: "GridTreeSet \<Rightarrow> OpenSet \<Rightarrow> error \<times> GridTreeSet + GridTreeSet" where
  "outer_remove_open S theSet = with_open_set outer_remove_open_node S theSet"

definition inner_remove_open :: "GridTreeSet \<Rightarrow> OpenSet \<Rightarrow> error \<times> GridTreeSet + GridTreeSet" where
  "inner_remove_open S theSet = with_open_set inner_remove_open_node S theSet"

definition outer_restrict_checker ::
  "GridTreeSet \<Rightarrow> (Box \<Rightarrow> tribool) \<Rightarrow> nat \<Rightarrow> error \<times> GridTreeSet + GridTreeSet" where
  "outer_restrict_checker S check accuracy =
     with_checker outer_restrict_checker_node S check accuracy"

definition inner_restrict_checker ::
  "GridTreeSet \<Rightarrow> (Box \<Rightarrow> tribool) \<Rightarrow> nat \<Rightarrow> error \<times> GridTreeSet + GridTreeSet" where
  "inner_restrict_checker S check accuracy =
     with_checker inner_restrict_checker_node S check accuracy"

definition outer_remove_checker ::
  "GridTreeSet \<Rightarrow> (Box \<Rightarrow> tribool) \<Rightarrow> nat \<Rightarrow> error \<times> GridTreeSet + GridTreeSet" where
  "outer_remove_checker S check accuracy =
     with_checker outer_remove_checker_node S check accuracy"

definition inner_remove_checker ::
  "GridTreeSet \<Rightarrow> (Box \<Rightarrow> tribool) \<Rightarrow> nat \<Rightarrow> error \<times> GridTreeSet + GridTreeSet" where
  "inner_remove_checker S check accuracy =
     with_checker inner_remove_checker_node S check accuracy"

subsection \<open>The pavings a program can build\<close>

text \<open>
  The paving left by \<^verbatim>\<open>import_from_file\<close>, whether it returns or fails to delete the file.
\<close>

fun imported_paving ::
  "error \<times> GridTreeSet \<times> FileSystem + GridTreeSet \<times> FileSystem \<Rightarrow> GridTreeSet" where
  "imported_paving (Inl (err, S, fs)) = S"
| "imported_paving (Inr (S, fs)) = S"

text \<open>
  The pavings reachable from a newly constructed one by the public operations that change
  a paving: one rule for each operation.  An operation that raises an error leaves a paving
  too.  The subsets an operation is handed are views of reachable pavings.
  \<^verbatim>\<open>export_to_file\<close> has no rule of its own; it comes together with the import from an
  existing file that follows it.
\<close>

inductive reachable :: "GridTreeSet \<Rightarrow> bool" where
  constructed:
    "reachable (new_GridTreeSet theGrid theHeight enable)"
| by_adjoin_cell:
    "reachable S \<Longrightarrow> reachable (paving_of (adjoin_cell S theCell))"
| by_adjoin_subset:
    "reachable S \<Longrightarrow> reachable other \<Longrightarrow> has_path p (p_root_tree_node other)
     \<Longrightarrow> reachable (paving_of (adjoin_subset S (subset_at other p)))"
| by_remove_cell:
    "reachable S \<Longrightarrow> reachable (paving_of (remove_cell S theCell))"
| by_remove_subset:
    "reachable S \<Longrightarrow> reachable other \<Longrightarrow> has_path p (p_root_tree_node other)
     \<Longrightarrow> reachable (paving_of (remove_subset S (subset_at other p)))"
| by_restrict_subset:
    "reachable S \<Longrightarrow> reachable other \<Longrightarrow> has_path p (p_root_tree_node other)
     \<Longrightarrow> reachable (paving_of (restrict_subset S (subset_at other p)))"
| by_restrict_to_height:
    "reachable S \<Longrightarrow> reachable (restrict_to_height S theHeight)"
| by_clear:
    "reachable S \<Longrightarrow> reachable (clear S)"
| by_mince_to_tree_depth:
    "reachable S \<Longrightarrow> reachable (mince_to_tree_depth S theNewDepth)"
| by_recombine:
    "reachable S \<Longrightarrow> reachable (recombine S)"
| by_adjoin_outer_approximation:
    "reachable S \<Longrightarrow> adjoin_outer_approximation S theSet numSubdivInDim = Some result
     \<Longrightarrow> reachable (paving_of result)"
| by_adjoin_over_approximation:
    "reachable S \<Longrightarrow> adjoin_over_approximation as_set S theBox numSubdivInDim = Some result
     \<Longrightarrow> reachable (paving_of result)"
| by_adjoin_lower_approximation_height:
    "reachable S
     \<Longrightarrow> reachable (paving_of (adjoin_lower_approximation_height S overtSet height numSubdivInDim))"
| by_adjoin_lower_approximation_box:
    "reachable S
     \<Longrightarrow> adjoin_lower_approximation_box S overtSet theBoundingBox numSubdivInDim = Some result
     \<Longrightarrow> reachable (paving_of result)"
| by_adjoin_inner_approximation_height:
    "reachable S
     \<Longrightarrow> reachable (paving_of (adjoin_inner_approximation_height S openSet height numSubdivInDim))"
| by_adjoin_inner_approximation_box:
    "reachable S
     \<Longrightarrow> adjoin_inner_approximation_box S openSet theBoundingBox numSubdivInDim = Some result
     \<Longrightarrow> reachable (paving_of result)"
| by_outer_restrict_open:
    "reachable S \<Longrightarrow> reachable (paving_of (outer_restrict_open S openSet))"
| by_inner_restrict_open:
    "reachable S \<Longrightarrow> reachable (paving_of (inner_restrict_open S openSet))"
| by_outer_remove_open:
    "reachable S \<Longrightarrow> reachable (paving_of (outer_remove_open S openSet))"
| by_inner_remove_open:
    "reachable S \<Longrightarrow> reachable (paving_of (inner_remove_open S openSet))"
| by_outer_restrict_checker:
    "reachable S \<Longrightarrow> reachable (paving_of (outer_restrict_checker S check accuracy))"
| by_inner_restrict_checker:
    "reachable S \<Longrightarrow> reachable (paving_of (inner_restrict_checker S check accuracy))"
| by_outer_remove_checker:
    "reachable S \<Longrightarrow> reachable (paving_of (outer_remove_checker S check accuracy))"
| by_inner_remove_checker:
    "reachable S \<Longrightarrow> reachable (paving_of (inner_remove_checker S check accuracy))"
| by_import_from_file:
    "reachable S \<Longrightarrow> import_from_file S fs filename = Some imported
     \<Longrightarrow> reachable (imported_paving imported)"
| by_export_then_import:
    "reachable S \<Longrightarrow> file_contents fs' filename' \<noteq> None
     \<Longrightarrow> import_from_file (fst (export_to_file S fs filename)) fs' filename' = Some imported
     \<Longrightarrow> reachable (imported_paving imported)"
| by_join:
    "reachable S1 \<Longrightarrow> has_path p1 (p_root_tree_node S1)
     \<Longrightarrow> reachable S2 \<Longrightarrow> has_path p2 (p_root_tree_node S2)
     \<Longrightarrow> join (subset_at S1 p1) (subset_at S2 p2) = Inr resultSet
     \<Longrightarrow> reachable resultSet"
| by_intersection:
    "reachable S1 \<Longrightarrow> has_path p1 (p_root_tree_node S1)
     \<Longrightarrow> reachable S2 \<Longrightarrow> has_path p2 (p_root_tree_node S2)
     \<Longrightarrow> intersection (subset_at S1 p1) (subset_at S2 p2) = Inr resultSet
     \<Longrightarrow> reachable resultSet"
| by_difference:
    "reachable S1 \<Longrightarrow> has_path p1 (p_root_tree_node S1)
     \<Longrightarrow> reachable S2 \<Longrightarrow> has_path p2 (p_root_tree_node S2)
     \<Longrightarrow> difference (subset_at S1 p1) (subset_at S2 p2) = Inr resultSet
     \<Longrightarrow> reachable resultSet"

section \<open>Properties of the tree operations\<close>

lemma tribool_and_true_true [simp]: "tribool_and a b = true_value \<longleftrightarrow> a = true_value \<and> b = true_value"
  by (cases a; cases b) simp_all

lemma restrict_nodes_in_enabled_leaf:
  "in_enabled_leaf (restrict_nodes A B) w = (in_enabled_leaf A w \<and> in_enabled_leaf B w)"
proof (induction A B arbitrary: w rule: restrict_nodes.induct)
  case (1 a b)
  show ?case by (simp add: is_enabled_def definitely_def)
next
  case (2 a l r b)
  show ?case by (simp add: is_enabled_def definitely_def make_leaf_def)
next
  case (3 a b l r)
  show ?case by (simp add: is_enabled_def definitely_def copy_from_def)
next
  case (4 a l r b l' r')
  then show ?case by (cases w) auto
qed

text \<open>
  C2.  For aligned trees \<open>A\<close> and \<open>B\<close>, \<^verbatim>\<open>restrict(A, B)\<close> leaves in \<open>A\<close> exactly the
  intersection of what \<open>A\<close> and \<open>B\<close> denoted: a cell word lies under an enabled leaf of the
  result iff it lies under an enabled leaf of \<open>A\<close> and under one of \<open>B\<close>.  When both roots
  are leaves the flag of \<open>A\<close> becomes the conjunction; a non-leaf \<open>A\<close> is unchanged against
  an enabled leaf and becomes a disabled leaf against a disabled leaf.
\<close>

theorem restrict_is_intersection:
  "in_enabled_leaf (restrict_nodes A B) w = (in_enabled_leaf A w \<and> in_enabled_leaf B w)
   \<and> restrict (Some A) (Some B) = Some (restrict_nodes A B)
   \<and> restrict_nodes (Leaf a) (Leaf b) = Leaf (tribool_and a b)
   \<and> restrict_nodes (Node e l r) (Leaf true_value) = Node e l r
   \<and> restrict_nodes (Node e l r) (Leaf false_value) = Leaf false_value"
  by (simp add: restrict_nodes_in_enabled_leaf restrict_def is_enabled_def definitely_def
      make_leaf_def)

lemma recombine_mince_enabled_leaf:
  "recombine_node (mince_node (Leaf true_value) k) = Leaf true_value"
  by (induction k)
     (simp_all add: is_disabled_def possibly_def definitely_def make_leaf_def tribool_of_bool_def)

lemma mince_disabled_leaf: "mince_node (Leaf false_value) k = Leaf false_value"
  by (cases k) (simp_all add: is_disabled_def possibly_def)

lemma recombine_mince:
  "leaves_determinate T \<Longrightarrow> recombine_node (mince_node T k) = recombine_node T"
proof (induction k arbitrary: T)
  case 0
  show ?case by simp
next
  case (Suc k)
  show ?case
  proof (cases T)
    case (Leaf e)
    with Suc.prems have "e = true_value \<or> e = false_value"
      by (cases e) (simp_all add: indeterminate_def)
    then show ?thesis
    proof
      assume e: "e = true_value"
      have "recombine_node (mince_node (Leaf true_value) (Suc k)) = Leaf true_value"
        by (rule recombine_mince_enabled_leaf)
      with e Leaf show ?thesis by simp
    next
      assume "e = false_value"
      with Leaf show ?thesis by (simp only: mince_disabled_leaf)
    qed
  next
    case (Node e l r)
    with Suc.prems have "leaves_determinate l" "leaves_determinate r" by simp_all
    then have "recombine_node (mince_node l k) = recombine_node l"
      and "recombine_node (mince_node r k) = recombine_node r"
      by (simp_all add: Suc.IH)
    with Node show ?thesis by simp
  qed
qed

text \<open>
  C3 fails as stated: minced to depth 1, an indeterminate leaf becomes an internal node
  over two indeterminate leaves, and recombine does not merge them (comparing two
  indeterminate flags is not true), while recombining the leaf itself leaves the leaf.
\<close>

theorem mince_recombine_counterexample:
  "recombine_node (mince_node (Leaf indeterminate_value) 1)
     \<noteq> recombine_node (Leaf indeterminate_value)"
  by (simp add: is_disabled_def possibly_def definitely_def Let_def)

text \<open>
  C3, amended.  For every tree \<open>T\<close> none of whose leaves is indeterminate and every depth
  \<open>k\<close>, recombining the tree minced to depth \<open>k\<close> gives the same tree as recombining \<open>T\<close>;
  and mince never splits a disabled leaf.
\<close>

theorem mince_preserves_recombine:
  "leaves_determinate T \<Longrightarrow>
     recombine_node (mince_node T k) = recombine_node T
     \<and> mince_node (Leaf false_value) k = Leaf false_value"
  by (simp add: recombine_mince mince_disabled_leaf)

theorem mince_preserves_recombine_witness:
  "leaves_determinate (Node indeterminate_value (Leaf true_value) (Leaf false_value))
   \<and> recombine_node (mince_node (Node indeterminate_value (Leaf true_value) (Leaf false_value)) 2)
       = Node indeterminate_value (Leaf true_value) (Leaf false_value)
   \<and> mince_node (Node indeterminate_value (Leaf true_value) (Leaf false_value)) 2
       \<noteq> Node indeterminate_value (Leaf true_value) (Leaf false_value)"
proof -
  let ?T = "Node indeterminate_value (Leaf true_value) (Leaf false_value)"
  have h: "leaves_determinate ?T" by (simp add: indeterminate_def)
  have r: "recombine_node ?T = ?T"
    by (simp add: definitely_def tribool_of_bool_def)
  have m: "mince_node ?T 2 \<noteq> ?T"
    by (simp add: numeral_2_eq_2 is_disabled_def possibly_def)
  from mince_preserves_recombine [OF h, of 2] h r m show ?thesis by simp
qed

section \<open>Properties of the persistence format\<close>

lemma remove_to_file_append:
  "remove_to_file T fl = (Leaf (isEnabled T), fl @ snd (remove_to_file T []))"
proof (induction T arbitrary: fl)
  case (Leaf e)
  show ?case by (simp add: fputc_def)
next
  case (Node e l r)
  have l: "remove_to_file l f = (Leaf (isEnabled l), f @ snd (remove_to_file l []))" for f
    by (rule Node.IH(1))
  have r: "remove_to_file r f = (Leaf (isEnabled r), f @ snd (remove_to_file r []))" for f
    by (rule Node.IH(2))
  show ?case
    by (simp add: fputc_def l [of "fl @ _"] l [of "[_]"] r [of "fl @ _"] r [of "_ # _"])
qed

lemma remove_to_file_Node_bytes:
  "snd (remove_to_file (Node e l r) []) =
     1 # snd (remove_to_file l []) @ snd (remove_to_file r [])"
proof -
  have l: "remove_to_file l [1] = (Leaf (isEnabled l), [1] @ snd (remove_to_file l []))"
    by (rule remove_to_file_append)
  have r: "remove_to_file r f = (Leaf (isEnabled r), f @ snd (remove_to_file r []))" for f
    by (rule remove_to_file_append)
  show ?thesis
    by (simp add: fputc_def int_of_bool_def l r [of "_ # _"])
qed

lemma add_enabled_from_file_exported:
  "leaves_determinate T \<Longrightarrow>
   add_enabled_from_file (Leaf e) (snd (remove_to_file T []) @ rest)
     = Some (with_internal_flag e T, rest)"
proof (induction T arbitrary: rest)
  case (Leaf v)
  then have "v = true_value \<or> v = false_value"
    by (cases v) (simp_all add: indeterminate_def)
  then show ?case
    by (subst add_enabled_from_file.simps)
       (auto simp add: fputc_def int_of_bool_def definitely_def tribool_of_bool_def)
next
  case (Node a l r)
  then have dl: "leaves_determinate l" and dr: "leaves_determinate r" by simp_all
  have l: "add_enabled_from_file (Leaf e) (snd (remove_to_file l []) @ (snd (remove_to_file r []) @ rest))
             = Some (with_internal_flag e l, snd (remove_to_file r []) @ rest)"
    by (rule Node.IH(1) [OF dl])
  have r: "add_enabled_from_file (Leaf e) (snd (remove_to_file r []) @ rest)
             = Some (with_internal_flag e r, rest)"
    by (rule Node.IH(2) [OF dr])
  have "add_enabled_from_file (Leaf e) (1 # snd (remove_to_file l []) @ snd (remove_to_file r []) @ rest)
          = Some (Node e (with_internal_flag e l) (with_internal_flag e r), rest)"
    by (subst add_enabled_from_file.simps) (simp add: l r)
  then show ?case by (simp only: remove_to_file_Node_bytes append_Cons append_assoc with_internal_flag.simps)
qed

lemma with_internal_flag_indeterminate:
  "internal_indeterminate T \<Longrightarrow> with_internal_flag indeterminate_value T = T"
  by (induction T) (simp_all add: indeterminate_def)

lemma flag_equal_refl:
  "definitely (tribool_eq a a) \<or> indeterminate a"
  by (cases a) (simp_all add: definitely_def indeterminate_def tribool_of_bool_def)

lemma node_equal_refl: "node_equal T T"
  by (induction T) (simp_all add: flag_equal_refl)

text \<open>
  Importing what was exported from \<open>T\<close> into the indeterminate single node that the
  export leaves behind rebuilds \<open>T\<close>, for a tree whose leaves are determinate and whose
  internal nodes are indeterminate.
\<close>

lemma import_export_into_indeterminate_node:
  assumes "leaves_determinate T" and "internal_indeterminate T"
  shows "add_enabled_from_file (Leaf indeterminate_value) (snd (remove_to_file T [])) = Some (T, [])"
    and "node_equal T T"
  using add_enabled_from_file_exported [OF assms(1), of indeterminate_value "[]"]
    with_internal_flag_indeterminate [OF assms(2)] node_equal_refl
  by simp_all

lemma add_enabled_from_file_example:
  "add_enabled_from_file (Leaf false_value) [1, 0, 1, 0, 0]
     = Some (Node false_value (Leaf true_value) (Leaf false_value), [])"
proof -
  have l: "add_enabled_from_file (Leaf false_value) [0, 1, 0, 0] = Some (Leaf true_value, [0, 0])"
    by (subst add_enabled_from_file.simps) (simp add: tribool_of_bool_def)
  have r: "add_enabled_from_file (Leaf false_value) [0, 0] = Some (Leaf false_value, [])"
    by (subst add_enabled_from_file.simps) (simp add: tribool_of_bool_def)
  show ?thesis
    by (subst add_enabled_from_file.simps) (simp add: l r)
qed

text \<open>
  C4 at a failing input.  The tree with an indeterminate root over an enabled and a
  disabled leaf is exported as the bytes 1, 0, 1, 0, 0.  Imported into a new disabled
  single node (what every constructor of a paving creates), the bytes give a root whose
  flag is still the false value: the children are created without the flag being set to
  indeterminate, and \<^verbatim>\<open>operator==\<close> reports the result different from the exported tree.
\<close>

theorem import_export_fresh_node_differs:
  "snd (remove_to_file (Node indeterminate_value (Leaf true_value) (Leaf false_value)) [])
     = [1, 0, 1, 0, 0]
   \<and> add_enabled_from_file (Leaf false_value) [1, 0, 1, 0, 0]
       = Some (Node false_value (Leaf true_value) (Leaf false_value), [])
   \<and> \<not> node_equal (Node false_value (Leaf true_value) (Leaf false_value))
         (Node indeterminate_value (Leaf true_value) (Leaf false_value))"
proof -
  have i: "add_enabled_from_file (Leaf false_value) [1, 0, 1, 0, 0]
             = Some (Node false_value (Leaf true_value) (Leaf false_value), [])"
    by (rule add_enabled_from_file_example)
  have e: "snd (remove_to_file (Node indeterminate_value (Leaf true_value) (Leaf false_value)) [])
             = [1, 0, 1, 0, 0]"
    by (simp add: fputc_def int_of_bool_def definitely_def)
  have n: "\<not> node_equal (Node false_value (Leaf true_value) (Leaf false_value))
              (Node indeterminate_value (Leaf true_value) (Leaf false_value))"
    by (simp add: definitely_def indeterminate_def)
  from e i n show ?thesis by (intro conjI)
qed

section \<open>Properties of re-rooting\<close>












section \<open>Properties of cells\<close>

lemma covers_disjoint_box:
  "compute_box g h w = Inr theCellsBox \<Longrightarrow> overlaps theCellsBox theBox = false_value
     \<Longrightarrow> covers overlaps n g h w theBox = Inr true_value"
  by (cases n) (simp_all add: definitely_def)

text \<open>
  C9.  For every subset \<open>S\<close> (the empty one too) and every box that definitely does not
  overlap the box of the root cell of \<open>S\<close>, \<^verbatim>\<open>covers\<close> started at the root returns definitely
  true, whatever the tree holds.
\<close>

theorem covers_box_outside_root_cell:
  assumes "cell_box (the_grid_cell S) = Inr theCellsBox"
    and "overlaps theCellsBox theBox = false_value"
  shows "covers overlaps (p_root_tree_node S) (the_grid (the_grid_cell S))
           (the_height (the_grid_cell S)) (the_word (the_grid_cell S)) theBox = Inr true_value"
  using assms by (simp add: cell_box_def covers_disjoint_box)

theorem covers_box_outside_root_cell_witness:
  "covers box_overlaps (Leaf false_value) \<lparr>origin = [0, 0], lengths = [1, 1]\<rparr> 0 []
     [\<lparr>lower = 2, upper = 3\<rparr>, \<lparr>lower = 2, upper = 3\<rparr>] = Inr true_value"
proof -
  let ?S = "\<lparr>the_grid_cell = \<lparr>the_grid = \<lparr>origin = [0, 0], lengths = [1, 1]\<rparr>,
                                the_height = 0, the_word = []\<rparr>,
             p_root_tree_node = Leaf false_value\<rparr>"
  let ?B = "[\<lparr>lower = 2, upper = 3\<rparr>, \<lparr>lower = 2, upper = 3\<rparr>]"
  let ?C = "[\<lparr>lower = 0, upper = 1\<rparr>, \<lparr>lower = 0, upper = 1\<rparr>]"
  have c: "cell_box (the_grid_cell ?S) = Inr ?C" by code_simp
  have o: "box_overlaps ?C ?B = false_value" by code_simp
  from covers_box_outside_root_cell [of ?S ?C box_overlaps ?B, OF c o] show ?thesis by simp
qed







lemma loop_length [simp]:
  "length (compute_lattice_box_loop d i w box) = length box"
  by (induction w arbitrary: i box) (simp_all add: Let_def)






lemma primary_cell_lattice_box_length [simp]: "length (primary_cell_lattice_box h d) = d"
  by (simp add: primary_cell_lattice_box_def split: prod.splits)



section \<open>Properties of the operations of a paving\<close>




lemma import_from_file_success:
  assumes "import_from_file S fs filename = Some (Inr (S', fs'))"
  shows "file_contents fs' filename = None"
    and "\<forall>other. other \<noteq> filename \<longrightarrow> file_contents fs' other = file_contents fs other"
    and "fst (std_remove fs filename) = 0"
  using assms
  by (auto simp add: import_from_file_def std_remove_def Let_def
      split: option.splits prod.splits if_splits)

text \<open>
  C10.  Once the tree has been read from the named file, \<^verbatim>\<open>import_from_file\<close> calls
  \<^verbatim>\<open>std::remove\<close> on it: when the deletion fails the call ends in the failure, with the tree
  already read in; when the call succeeds the named file no longer exists, and no other
  file has changed.
\<close>

theorem import_from_file_deletes_file:
  "(import_from_file S fs filename = Some (Inr (S', fs'))
      \<longrightarrow> file_contents fs' filename = None
          \<and> (\<forall>other. other \<noteq> filename \<longrightarrow> file_contents fs' other = file_contents fs other))
   \<and> (file_contents fs filename = Some file
        \<and> add_enabled_from_file (p_root_tree_node S) file = Some (newRoot, rest)
        \<longrightarrow> import_from_file S fs filename
              = (if fst (std_remove fs filename) \<noteq> 0
                 then Some (Inl (DeleteFailed, S\<lparr>p_root_tree_node := newRoot\<rparr>, fs))
                 else Some (Inr (S\<lparr>p_root_tree_node := newRoot\<rparr>,
                                 fs\<lparr>file_contents := (file_contents fs)(filename := None)\<rparr>))))"
proof (intro conjI impI)
  assume a: "import_from_file S fs filename = Some (Inr (S', fs'))"
  show "file_contents fs' filename = None" by (rule import_from_file_success(1) [OF a])
  show "\<forall>other. other \<noteq> filename \<longrightarrow> file_contents fs' other = file_contents fs other"
    by (rule import_from_file_success(2) [OF a])
next
  assume "file_contents fs filename = Some file
            \<and> add_enabled_from_file (p_root_tree_node S) file = Some (newRoot, rest)"
  then show "import_from_file S fs filename
              = (if fst (std_remove fs filename) \<noteq> 0
                 then Some (Inl (DeleteFailed, S\<lparr>p_root_tree_node := newRoot\<rparr>, fs))
                 else Some (Inr (S\<lparr>p_root_tree_node := newRoot\<rparr>,
                                 fs\<lparr>file_contents := (file_contents fs)(filename := None)\<rparr>)))"
    by (simp add: import_from_file_def std_remove_def Let_def)
qed

theorem import_from_file_deletes_file_witness:
  "(\<exists>S' fs'. import_from_file
       \<lparr>the_grid_cell = \<lparr>the_grid = \<lparr>origin = [0, 0], lengths = [1, 1]\<rparr>, the_height = 0, the_word = []\<rparr>,
        p_root_tree_node = Leaf false_value\<rparr>
       \<lparr>file_contents = [''paving'' \<mapsto> [1, 0, 1, 0, 0]], undeletable = {}\<rparr> ''paving''
       = Some (Inr (S', fs'))
     \<and> p_root_tree_node S' = Node false_value (Leaf true_value) (Leaf false_value)
     \<and> file_contents fs' ''paving'' = None)
   \<and> (\<exists>S'. import_from_file
       \<lparr>the_grid_cell = \<lparr>the_grid = \<lparr>origin = [0, 0], lengths = [1, 1]\<rparr>, the_height = 0, the_word = []\<rparr>,
        p_root_tree_node = Leaf false_value\<rparr>
       \<lparr>file_contents = [''paving'' \<mapsto> [1, 0, 1, 0, 0]], undeletable = {''paving''}\<rparr> ''paving''
       = Some (Inl (DeleteFailed, S',
           \<lparr>file_contents = [''paving'' \<mapsto> [1, 0, 1, 0, 0]], undeletable = {''paving''}\<rparr>)))"
proof -
  let ?S = "\<lparr>the_grid_cell = \<lparr>the_grid = \<lparr>origin = [0, 0], lengths = [1, 1]\<rparr>, the_height = 0, the_word = []\<rparr>,
             p_root_tree_node = Leaf false_value\<rparr>"
  let ?fs = "\<lparr>file_contents = [''paving'' \<mapsto> [1, 0, 1, 0, 0]], undeletable = {}\<rparr>"
  let ?ro = "\<lparr>file_contents = [''paving'' \<mapsto> [1, 0, 1, 0, 0]], undeletable = {''paving''}\<rparr>"
  let ?n = "Node false_value (Leaf true_value) (Leaf false_value)"
  have f: "file_contents ?fs ''paving'' = Some [1, 0, 1, 0, 0]"
    and f': "file_contents ?ro ''paving'' = Some [1, 0, 1, 0, 0]" by simp_all
  have a: "add_enabled_from_file (p_root_tree_node ?S) [1, 0, 1, 0, 0] = Some (?n, [])"
    by (simp add: add_enabled_from_file_example)
  have r: "fst (std_remove ?fs ''paving'') = 0" and r': "fst (std_remove ?ro ''paving'') \<noteq> 0"
    by (simp_all add: std_remove_def)
  from import_from_file_deletes_file [of ?S ?fs "''paving''" _ _ "[1, 0, 1, 0, 0]" ?n "[]"] f a r
  have 1: "import_from_file ?S ?fs ''paving''
             = Some (Inr (?S\<lparr>p_root_tree_node := ?n\<rparr>,
                          ?fs\<lparr>file_contents := (file_contents ?fs)(''paving'' := None)\<rparr>))"
    by simp
  from import_from_file_deletes_file [of ?S ?ro "''paving''" _ _ "[1, 0, 1, 0, 0]" ?n "[]"] f' a r'
  have 2: "import_from_file ?S ?ro ''paving''
             = Some (Inl (DeleteFailed, ?S\<lparr>p_root_tree_node := ?n\<rparr>, ?ro))"
    by simp
  from 1 2 show ?thesis by simp
qed

section \<open>The outer approximation covers the set\<close>













lemma split_is_Node: "\<exists>e l r. split n = Node e l r"
  by (cases n) simp_all



















section \<open>No indeterminate leaf\<close>

text \<open>
  Every function that changes a tree keeps the property that no leaf carries the
  indeterminate value: the flags it assigns to leaves are true or false, the leaves it
  creates by \<open>split\<close> copy the flag of a leaf, and the subtrees it copies come from a tree
  with the property.
\<close>

lemma leaves_determinate_split [simp]: "leaves_determinate (split n) = leaves_determinate n"
  by (cases n) simp_all

lemma leaves_determinate_make_leaf [simp]:
  "leaves_determinate (make_leaf n true_value)" "leaves_determinate (make_leaf n false_value)"
  by (simp_all add: make_leaf_def indeterminate_def)

lemma leaves_determinate_set_isEnabled:
  "leaves_determinate n \<Longrightarrow> \<not> indeterminate v \<Longrightarrow> leaves_determinate (set_isEnabled n v)"
  by (cases n) simp_all

lemma leaves_determinate_set_enabled [simp]:
  "leaves_determinate n \<Longrightarrow> leaves_determinate (set_enabled n)"
  by (simp add: set_enabled_def leaves_determinate_set_isEnabled indeterminate_def)

lemma leaves_determinate_set_disabled [simp]:
  "leaves_determinate n \<Longrightarrow> leaves_determinate (set_disabled n)"
  by (simp add: set_disabled_def leaves_determinate_set_isEnabled indeterminate_def)

lemma leaves_determinate_add_enabled_path:
  "leaves_determinate n \<Longrightarrow> leaves_determinate (add_enabled_path n path)"
proof (induction path arbitrary: n)
  case Nil
  then show ?case by simp
next
  case (Cons b path)
  obtain e l r where s: "split n = Node e l r" using split_is_Node by blast
  from Cons.prems have "leaves_determinate (split n)" by simp
  with s have "leaves_determinate l" "leaves_determinate r" by simp_all
  with Cons.IH Cons.prems s show ?case by simp
qed

lemma leaves_determinate_add_enabled_tree:
  "leaves_determinate pTo \<Longrightarrow> leaves_determinate pFrom
   \<Longrightarrow> leaves_determinate (add_enabled_tree pTo pFrom)"
  by (induction pTo pFrom rule: add_enabled_tree.induct) simp_all

lemma leaves_determinate_add_enabled_subtree:
  "leaves_determinate n \<Longrightarrow> leaves_determinate other
   \<Longrightarrow> leaves_determinate (add_enabled_subtree n other path)"
proof (induction path arbitrary: n)
  case Nil
  then show ?case by (simp add: leaves_determinate_add_enabled_tree)
next
  case (Cons b path)
  obtain e l r where s: "split n = Node e l r" using split_is_Node by blast
  from Cons.prems have "leaves_determinate (split n)" by simp
  with s have "leaves_determinate l" "leaves_determinate r" by simp_all
  with Cons.IH Cons.prems s show ?case by simp
qed

lemma leaves_determinate_remove_nodes:
  "leaves_determinate a \<Longrightarrow> leaves_determinate b \<Longrightarrow> leaves_determinate (remove_nodes a b)"
  by (induction a b rule: remove_nodes.induct) (simp_all add: indeterminate_def)

lemma leaves_determinate_remove_cell_split:
  "leaves_determinate n \<Longrightarrow> leaves_determinate (remove_cell_split n path)"
proof (induction path arbitrary: n)
  case Nil
  then show ?case by simp
next
  case (Cons b path)
  obtain e l r where s: "split n = Node e l r" using split_is_Node by blast
  from Cons.prems have "leaves_determinate (split n)" by simp
  with s have "leaves_determinate l" "leaves_determinate r" by simp_all
  with Cons.IH s show ?case by simp
qed

lemma leaves_determinate_remove_cell_node:
  "leaves_determinate n \<Longrightarrow> leaves_determinate (remove_cell_node n path)"
  by (induction n path rule: remove_cell_node.induct)
     (simp_all add: leaves_determinate_remove_cell_split)

lemma leaves_determinate_restrict_nodes:
  "leaves_determinate a \<Longrightarrow> leaves_determinate b \<Longrightarrow> leaves_determinate (restrict_nodes a b)"
proof (induction a b rule: restrict_nodes.induct)
  case (1 a b)
  then show ?case by (cases a; cases b; simp add: indeterminate_def)
qed (simp_all add: copy_from_def)

lemma leaves_determinate_restrict_to_lower_loop:
  "leaves_determinate n \<Longrightarrow> leaves_determinate other
   \<Longrightarrow> leaves_determinate (restrict_to_lower_loop path n other)"
proof (induction path arbitrary: n)
  case Nil
  then show ?case by (simp add: copy_from_def leaves_determinate_restrict_nodes)
next
  case (Cons b path)
  obtain e l r where s: "split n = Node e l r" using split_is_Node by blast
  from Cons.prems have "leaves_determinate (split n)" by simp
  with s have "leaves_determinate l" "leaves_determinate r" by simp_all
  with Cons.IH Cons.prems s show ?case by simp
qed

lemma leaves_determinate_remove_from_lower_loop:
  "leaves_determinate n \<Longrightarrow> leaves_determinate other
   \<Longrightarrow> leaves_determinate (remove_from_lower_loop path n other)"
proof (induction path arbitrary: n)
  case Nil
  then show ?case by (simp add: leaves_determinate_remove_nodes)
next
  case (Cons b path)
  obtain e l r where s: "split n = Node e l r" using split_is_Node by blast
  from Cons.prems have "leaves_determinate (split n)" by simp
  with s have "leaves_determinate l" "leaves_determinate r" by simp_all
  with Cons.IH Cons.prems s show ?case by simp
qed

lemma leaves_determinate_restrict_to_height_loop:
  "leaves_determinate n \<Longrightarrow> leaves_determinate (restrict_to_height_loop path n)"
proof (induction path arbitrary: n)
  case Nil
  then show ?case by simp
next
  case (Cons b path)
  obtain e l r where s: "split n = Node e l r" using split_is_Node by blast
  from Cons.prems have "leaves_determinate (split n)" by simp
  with s have "leaves_determinate l" "leaves_determinate r" by simp_all
  with Cons.IH Cons.prems s show ?case by simp
qed

lemma leaves_determinate_mince_node:
  "leaves_determinate n \<Longrightarrow> leaves_determinate (mince_node n k)"
proof (induction k arbitrary: n)
  case 0
  then show ?case by simp
next
  case (Suc k)
  obtain e l r where s: "split n = Node e l r" using split_is_Node by blast
  from Suc.prems have "leaves_determinate (split n)" by simp
  with s have "leaves_determinate l" "leaves_determinate r" by simp_all
  with Suc.IH Suc.prems s show ?case by simp
qed

lemma leaves_determinate_recombine_node:
  "leaves_determinate n \<Longrightarrow> leaves_determinate (recombine_node n)"
proof (induction n)
  case (Leaf e)
  then show ?case by simp
next
  case (Node e l r)
  then have l: "leaves_determinate (recombine_node l)" and r: "leaves_determinate (recombine_node r)"
    by simp_all
  show ?case
  proof (cases "is_leaf (recombine_node l) \<and> is_leaf (recombine_node r)
      \<and> definitely (tribool_eq (isEnabled (recombine_node l)) (isEnabled (recombine_node r)))")
    case True
    then obtain a where a: "recombine_node l = Leaf a" by (cases "recombine_node l") simp_all
    with l have "\<not> indeterminate a" by simp
    with True a show ?thesis by (simp add: Let_def make_leaf_def)
  next
    case False
    with l r show ?thesis by (auto simp add: Let_def)
  qed
qed

lemma leaves_determinate_modify_at:
  "leaves_determinate n \<Longrightarrow> (\<And>m. leaves_determinate m \<Longrightarrow> leaves_determinate (f m))
   \<Longrightarrow> leaves_determinate (modify_at p f n)"
  by (induction p f n rule: modify_at.induct) simp_all

lemma leaves_determinate_node_at:
  "leaves_determinate n \<Longrightarrow> leaves_determinate (node_at p n)"
  by (induction p n rule: node_at.induct) simp_all

lemma leaves_determinate_replace_at:
  "leaves_determinate n \<Longrightarrow> leaves_determinate m
   \<Longrightarrow> leaves_determinate (modify_at p (\<lambda>old. m) n)"
  by (induction p "\<lambda>old::BinaryTreeNode. m" n rule: modify_at.induct) simp_all

lemma leaves_determinate_align_with_cell_loop:
  "leaves_determinate n
   \<Longrightarrow> leaves_determinate (fst (align_with_cell_loop path stop_on_enabled stop_on_disabled has_stopped n))"
proof (induction path arbitrary: n has_stopped)
  case Nil
  then show ?case by simp
next
  case (Cons b path)
  obtain e l r where s: "split n = Node e l r" using split_is_Node by blast
  from Cons.prems have "leaves_determinate (split n)" by simp
  with s have lr: "leaves_determinate l" "leaves_determinate r" by simp_all
  from Cons.IH [OF lr(1), of False] Cons.IH [OF lr(2), of False] Cons.prems s lr
  show ?case by (auto split: prod.splits)
qed

lemma leaves_determinate_prepend_tree_loop:
  "leaves_determinate cur \<Longrightarrow> leaves_determinate old
   \<Longrightarrow> leaves_determinate (prepend_tree_loop path cur old)"
proof (induction path cur old rule: prepend_tree_loop.induct)
  case (1 cur old)
  then show ?case by simp
next
  case (2 b cur old)
  obtain e l r where s: "split cur = Node e l r" using split_is_Node by blast
  from "2.prems" have "leaves_determinate (split cur)" by simp
  with s have "leaves_determinate l" "leaves_determinate r" by simp_all
  with "2.prems" s show ?case by simp
next
  case (3 b v va cur old)
  obtain e l r where s: "split cur = Node e l r" using split_is_Node by blast
  from "3.prems" have "leaves_determinate (split cur)" by simp
  with s have lr: "leaves_determinate l" "leaves_determinate r" by simp_all
  from "3.IH"(1) [OF s _ lr(2) "3.prems"(2)] "3.IH"(2) [OF s _ lr(1) "3.prems"(2)] s lr
  show ?case by simp
qed

lemma leaves_determinate_up_to_primary_cell:
  "up_to_primary_cell S h = Inr S' \<Longrightarrow> leaves_determinate (p_root_tree_node S)
   \<Longrightarrow> leaves_determinate (p_root_tree_node S')"
  by (auto simp add: up_to_primary_cell_def prepend_tree_def Let_def indeterminate_def
        leaves_determinate_prepend_tree_loop split: if_splits sum.splits)

lemma leaves_determinate_align_with_cell:
  "align_with_cell S h stop_on_enabled stop_on_disabled has_stopped = Inr (S1, p, stopped)
   \<Longrightarrow> leaves_determinate (p_root_tree_node S)
   \<Longrightarrow> leaves_determinate (p_root_tree_node S1)"
  using leaves_determinate_align_with_cell_loop
    [of "p_root_tree_node S"
        "primary_cell_path (dimension (the_grid (the_grid_cell S))) (the_height (the_grid_cell S)) h"
        stop_on_enabled stop_on_disabled has_stopped]
  by (auto simp add: align_with_cell_def Let_def leaves_determinate_up_to_primary_cell
        split: if_splits sum.splits prod.splits)

lemma leaves_determinate_adjoin_outer_approximation_body:
  "leaves_determinate n
   \<Longrightarrow> leaves_determinate (adjoin_outer_approximation_body is_disjoint g lb n D theSet p)"
proof (induction "D - length p" arbitrary: p lb n rule: less_induct)
  case less
  obtain e l r where sp: "split n = Node e l r" using split_is_Node by blast
  from less.prems have "leaves_determinate (split n)" by simp
  with sp have lr: "leaves_determinate l" "leaves_determinate r" by simp_all
  have IH: "leaves_determinate (adjoin_outer_approximation_body is_disjoint g lb' m D theSet (p @ [b]))"
    if "length p < D" "leaves_determinate m" for b lb' m
    using less.hyps [of "p @ [b]" m lb'] that by simp
  show ?case
    by (subst adjoin_outer_approximation_body.simps)
       (simp add: Let_def sp IH lr less.prems leaves_determinate_set_isEnabled indeterminate_def)
qed

lemma leaves_determinate_adjoin_lower_approximation_overt_node:
  "adjoin_lower_approximation_overt_node g n h D overlaps p = Inr n'
   \<Longrightarrow> leaves_determinate n \<Longrightarrow> leaves_determinate n'"
proof (induction "D - length p" arbitrary: p n n' rule: less_induct)
  case less
  obtain e l r where sp: "split n = Node e l r" using split_is_Node by blast
  from less.prems(2) have "leaves_determinate (split n)" by simp
  with sp have lr: "leaves_determinate l" "leaves_determinate r" by simp_all
  have IH: "leaves_determinate m'"
    if "\<not> D \<le> length p" "adjoin_lower_approximation_overt_node g m h D overlaps (p @ [b]) = Inr m'"
       "leaves_determinate m" for b m m'
    using less.hyps [of "p @ [b]" m m'] that by simp
  from less.prems(1) less.prems(2) lr IH [where b = False and m = l] IH [where b = True and m = r] show ?case
    by (subst (asm) adjoin_lower_approximation_overt_node.simps)
       (auto simp add: sp split: sum.splits if_splits)
qed

lemma leaves_determinate_adjoin_lower_approximation_open_node:
  "adjoin_lower_approximation_open_node g n h D covers_box overlaps p = Inr n'
   \<Longrightarrow> leaves_determinate n \<Longrightarrow> leaves_determinate n'"
proof (induction "D - length p" arbitrary: p n n' rule: less_induct)
  case less
  obtain e l r where sp: "split n = Node e l r" using split_is_Node by blast
  from less.prems(2) have "leaves_determinate (split n)" by simp
  with sp have lr: "leaves_determinate l" "leaves_determinate r" by simp_all
  have IH: "leaves_determinate m'"
    if "\<not> D \<le> length p"
       "adjoin_lower_approximation_open_node g m h D covers_box overlaps (p @ [b]) = Inr m'"
       "leaves_determinate m" for b m m'
    using less.hyps [of "p @ [b]" m m'] that by simp
  from less.prems(1) less.prems(2) lr IH [where b = False and m = l] IH [where b = True and m = r] show ?case
    by (subst (asm) adjoin_lower_approximation_open_node.simps)
       (auto simp add: sp leaves_determinate_mince_node split: sum.splits if_splits)
qed

lemma leaves_determinate_adjoin_inner_approximation_node:
  "adjoin_inner_approximation_node g n h D theSet p = Inr n'
   \<Longrightarrow> leaves_determinate n \<Longrightarrow> leaves_determinate n'"
proof (induction "D - length p" arbitrary: p n n' rule: less_induct)
  case less
  obtain e l r where sp: "split n = Node e l r" using split_is_Node by blast
  from less.prems(2) have "leaves_determinate (split n)" by simp
  with sp have lr: "leaves_determinate l" "leaves_determinate r" by simp_all
  have IH: "leaves_determinate m'"
    if "\<not> D \<le> length p" "adjoin_inner_approximation_node g m h D theSet (p @ [b]) = Inr m'"
       "leaves_determinate m" for b m m'
    using less.hyps [of "p @ [b]" m m'] that by simp
  from less.prems(1) less.prems(2) lr IH [where b = False and m = l] IH [where b = True and m = r] show ?case
    by (subst (asm) adjoin_inner_approximation_node.simps)
       (auto simp add: sp split: sum.splits if_splits)
qed

lemma leaves_determinate_restrict_remove_body:
  assumes at_max: "\<And>m. leaves_determinate m \<Longrightarrow> leaves_determinate (at_max_depth m)"
  shows "restrict_remove_body unchanged disabled at_max_depth g n h D p = Inr n'
         \<Longrightarrow> leaves_determinate n \<Longrightarrow> leaves_determinate n'"
proof (induction "D - length p" arbitrary: p n n' rule: less_induct)
  case less
  obtain e l r where sp: "split n = Node e l r" using split_is_Node by blast
  from less.prems(2) have "leaves_determinate (split n)" by simp
  with sp have lr: "leaves_determinate l" "leaves_determinate r" by simp_all
  have IH: "leaves_determinate m'"
    if "length p < D"
       "restrict_remove_body unchanged disabled at_max_depth g m h D (p @ [b]) = Inr m'"
       "leaves_determinate m" for b m m'
    using less.hyps [of "p @ [b]" m m'] that by simp
  from less.prems(1) less.prems(2) lr IH [where b = False and m = l] IH [where b = True and m = r] at_max [of n] show ?case
    by (subst (asm) restrict_remove_body.simps)
       (auto simp add: sp split: sum.splits if_splits)
qed

lemma leaves_determinate_disable_node:
  "leaves_determinate m \<Longrightarrow> leaves_determinate (disable_node m)"
  by (simp add: disable_node_def)

lemma leaves_determinate_leave_node:
  "leaves_determinate m \<Longrightarrow> leaves_determinate (leave_node m)"
  by (simp add: leave_node_def)

lemma leaves_determinate_add_enabled_from_file:
  assumes eq: "add_enabled_from_file n fl = Some y"
  shows "is_leaf n \<or> leaves_determinate n \<longrightarrow> leaves_determinate (fst y)"
proof (rule add_enabled_from_file.raw_induct
         [where P = "\<lambda>n fl y. is_leaf n \<or> leaves_determinate n \<longrightarrow> leaves_determinate (fst y)",
          OF _ eq])
  fix rec :: "BinaryTreeNode \<Rightarrow> byte list \<Rightarrow> (BinaryTreeNode \<times> byte list) option"
    and n fl y
  assume IH: "\<And>n fl y. rec n fl = Some y
                \<Longrightarrow> is_leaf n \<or> leaves_determinate n \<longrightarrow> leaves_determinate (fst y)"
    and step: "(case fgetc fl of
      (hasLeaves, file1) \<Rightarrow>
        if hasLeaves = 0
        then case fgetc file1 of
             (c, file2) \<Rightarrow>
               Some (set_isEnabled n (tribool_of_bool (c \<noteq> 0)), file2)
        else rec (Leaf (isEnabled n)) file1 \<bind>
             (\<lambda>(pLeftNode, file2).
                 rec (Leaf (isEnabled n)) file2 \<bind>
                 (\<lambda>(pRightNode, file3).
                     Some (Node (isEnabled n) pLeftNode pRightNode, file3)))) = Some y"
  show "is_leaf n \<or> leaves_determinate n \<longrightarrow> leaves_determinate (fst y)"
  proof (cases "fst (fgetc fl) = 0")
    case True
    with step show ?thesis
      by (cases n) (auto simp add: tribool_of_bool_def indeterminate_def split: prod.splits)
  next
    case False
    with step obtain f1 pl f2 pr f3 where
      "rec (Leaf (isEnabled n)) f1 = Some (pl, f2)" "rec (Leaf (isEnabled n)) f2 = Some (pr, f3)"
      "y = (Node (isEnabled n) pl pr, f3)"
      by (auto split: prod.splits bind_splits)
    with IH [of "Leaf (isEnabled n)" f1 "(pl, f2)"] IH [of "Leaf (isEnabled n)" f2 "(pr, f3)"]
    show ?thesis by simp
  qed
qed

lemma leaves_determinate_on_node:
  assumes "leaves_determinate (p_root_tree_node S)"
    and "\<And>n n'. f n = Inr n' \<Longrightarrow> leaves_determinate n \<Longrightarrow> leaves_determinate n'"
  shows "leaves_determinate (p_root_tree_node (paving_of (on_node p f S)))"
proof (cases "f (node_at p (p_root_tree_node S))")
  case (Inl err)
  with assms(1) show ?thesis by (simp add: on_node_def)
next
  case (Inr n')
  from assms(2) [OF Inr] assms(1) have "leaves_determinate n'"
    by (simp add: leaves_determinate_node_at)
  with Inr assms(1) show ?thesis by (simp add: on_node_def leaves_determinate_replace_at)
qed

lemma leaves_determinate_new_GridTreeSet:
  "leaves_determinate (p_root_tree_node (new_GridTreeSet g h enable))"
  by (simp add: new_GridTreeSet_def tribool_of_bool_def indeterminate_def)

lemma leaves_determinate_subset_at:
  "leaves_determinate (p_root_tree_node S)
   \<Longrightarrow> leaves_determinate (p_root_tree_node (subset_at S p))"
  by (simp add: subset_at_def leaves_determinate_node_at)

lemma leaves_determinate_adjoin_cell:
  assumes "leaves_determinate (p_root_tree_node S)"
  shows "leaves_determinate (p_root_tree_node (paving_of (adjoin_cell S theCell)))"
proof (cases "align_with_cell S (the_height theCell) True False False")
  case (Inl err)
  with assms show ?thesis by (simp add: adjoin_cell_def)
next
  case (Inr res)
  obtain S1 p stopped where res: "res = (S1, p, stopped)" by (cases res) auto
  from Inr res assms have "leaves_determinate (p_root_tree_node S1)"
    by (auto dest: leaves_determinate_align_with_cell)
  with Inr res show ?thesis
    by (simp add: adjoin_cell_def leaves_determinate_modify_at leaves_determinate_add_enabled_path)
qed

lemma leaves_determinate_adjoin_subset:
  assumes "leaves_determinate (p_root_tree_node S)"
    and "leaves_determinate (p_root_tree_node other)"
  shows "leaves_determinate (p_root_tree_node (paving_of (adjoin_subset S other)))"
proof (cases "align_with_cell S (the_height (the_grid_cell other)) True False False")
  case (Inl err)
  with assms show ?thesis by (simp add: adjoin_subset_def)
next
  case (Inr res)
  obtain S1 p stopped where res: "res = (S1, p, stopped)" by (cases res) auto
  from Inr res assms have "leaves_determinate (p_root_tree_node S1)"
    by (auto dest: leaves_determinate_align_with_cell)
  with Inr res assms(2) show ?thesis
    by (simp add: adjoin_subset_def leaves_determinate_modify_at
          leaves_determinate_add_enabled_subtree)
qed

lemma leaves_determinate_remove_cell:
  assumes "leaves_determinate (p_root_tree_node S)"
  shows "leaves_determinate (p_root_tree_node (paving_of (remove_cell S theCell)))"
proof (cases "align_with_cell S (the_height theCell) False True False")
  case (Inl err)
  with assms show ?thesis by (simp add: remove_cell_def)
next
  case (Inr res)
  obtain S1 p stopped where res: "res = (S1, p, stopped)" by (cases res) auto
  from Inr res assms have "leaves_determinate (p_root_tree_node S1)"
    by (auto dest: leaves_determinate_align_with_cell)
  with Inr res assms show ?thesis
    by (simp add: remove_cell_def leaves_determinate_modify_at leaves_determinate_remove_cell_node)
qed

lemma leaves_determinate_restrict_to_lower:
  "leaves_determinate (p_root_tree_node S) \<Longrightarrow> leaves_determinate (p_root_tree_node other)
   \<Longrightarrow> leaves_determinate (p_root_tree_node (restrict_to_lower S other))"
  by (simp add: restrict_to_lower_def Let_def leaves_determinate_restrict_to_lower_loop)

lemma leaves_determinate_remove_from_lower:
  "leaves_determinate (p_root_tree_node S) \<Longrightarrow> leaves_determinate (p_root_tree_node other)
   \<Longrightarrow> leaves_determinate (p_root_tree_node (remove_from_lower S other))"
  by (simp add: remove_from_lower_def Let_def leaves_determinate_remove_from_lower_loop)

lemma leaves_determinate_restrict_subset:
  assumes "leaves_determinate (p_root_tree_node S)"
    and "leaves_determinate (p_root_tree_node other)"
  shows "leaves_determinate (p_root_tree_node (paving_of (restrict_subset S other)))"
proof (cases "up_to_primary_cell S (the_height (the_grid_cell other))")
  case (Inl err)
  with assms show ?thesis
    by (simp add: restrict_subset_def Let_def leaves_determinate_restrict_to_lower)
next
  case (Inr S1)
  from leaves_determinate_up_to_primary_cell [OF Inr assms(1)] Inr assms show ?thesis
    by (simp add: restrict_subset_def Let_def leaves_determinate_restrict_to_lower)
qed

lemma leaves_determinate_remove_subset:
  assumes "leaves_determinate (p_root_tree_node S)"
    and "leaves_determinate (p_root_tree_node other)"
  shows "leaves_determinate (p_root_tree_node (paving_of (remove_subset S other)))"
proof (cases "up_to_primary_cell S (the_height (the_grid_cell other))")
  case (Inl err)
  with assms show ?thesis
    by (simp add: remove_subset_def Let_def leaves_determinate_remove_from_lower)
next
  case (Inr S1)
  from leaves_determinate_up_to_primary_cell [OF Inr assms(1)] Inr assms show ?thesis
    by (simp add: remove_subset_def Let_def leaves_determinate_remove_from_lower)
qed

lemma leaves_determinate_restrict_to_height:
  "leaves_determinate (p_root_tree_node S)
   \<Longrightarrow> leaves_determinate (p_root_tree_node (restrict_to_height S theHeight))"
  by (simp add: restrict_to_height_def Let_def leaves_determinate_restrict_to_height_loop)

lemma leaves_determinate_adjoin_outer_approximation:
  assumes "adjoin_outer_approximation S theSet numSubdivInDim = Some result"
    and "leaves_determinate (p_root_tree_node S)"
  shows "leaves_determinate (p_root_tree_node (paving_of result))"
proof (cases "set_dimension theSet \<noteq> dimension (the_grid (the_grid_cell S))")
  case True
  with assms show ?thesis by (auto simp add: adjoin_outer_approximation_def Let_def)
next
  case dims: False
  from assms(1) dims obtain height where
    height: "smallest_enclosing_primary_cell_height (set_bounding_box theSet)
               (the_grid (the_grid_cell S)) = Some height"
    by (auto simp add: adjoin_outer_approximation_def Let_def split: option.splits)
  show ?thesis
  proof (cases "align_with_cell S height True False False")
    case (Inl err)
    with assms dims height show ?thesis
      by (auto simp add: adjoin_outer_approximation_def Let_def)
  next
    case (Inr res)
    obtain S1 p stopped where res: "res = (S1, p, stopped)" by (cases res) auto
    from Inr res assms(2) have S1: "leaves_determinate (p_root_tree_node S1)"
      by (auto dest: leaves_determinate_align_with_cell)
    from assms(1) dims height Inr res S1 show ?thesis
      by (auto simp add: adjoin_outer_approximation_def Let_def
            adjoin_outer_approximation_node_def adjoin_outer_approximation_taylorset_def
            leaves_determinate_modify_at leaves_determinate_adjoin_outer_approximation_body
            split: sum.splits option.splits if_splits)
  qed
qed

lemma leaves_determinate_adjoin_over_approximation:
  assumes "adjoin_over_approximation as_set S theBox numSubdivInDim = Some result"
    and "leaves_determinate (p_root_tree_node S)"
  shows "leaves_determinate (p_root_tree_node (paving_of result))"
proof (cases "list_ex (\<lambda>I. lower I \<ge> upper I) theBox")
  case True
  with assms show ?thesis by (auto simp add: adjoin_over_approximation_def)
next
  case False
  with assms(1) have "adjoin_outer_approximation S (as_set theBox) numSubdivInDim = Some result"
    by (simp add: adjoin_over_approximation_def)
  then show ?thesis using assms(2) by (rule leaves_determinate_adjoin_outer_approximation)
qed

lemma leaves_determinate_adjoin_lower_approximation_height:
  assumes "leaves_determinate (p_root_tree_node S)"
  shows "leaves_determinate (p_root_tree_node
           (paving_of (adjoin_lower_approximation_height S theSet height numSubdivInDim)))"
proof (cases "align_with_cell S height True False False")
  case (Inl err)
  with assms show ?thesis by (simp add: adjoin_lower_approximation_height_def)
next
  case (Inr res)
  obtain S1 p stopped where res: "res = (S1, p, stopped)" by (cases res) auto
  from Inr res assms have S1: "leaves_determinate (p_root_tree_node S1)"
    by (auto dest: leaves_determinate_align_with_cell)
  have overt: "leaves_determinate (p_root_tree_node (paving_of (on_node p
      (\<lambda>n. adjoin_lower_approximation_overt_node g n h D overlaps []) S1)))" for g h D overlaps
    using S1 by (rule leaves_determinate_on_node)
      (rule leaves_determinate_adjoin_lower_approximation_overt_node)
  have opn: "leaves_determinate (p_root_tree_node (paving_of (on_node p
      (\<lambda>n. adjoin_lower_approximation_open_node g n h D covers_box overlaps []) S1)))"
    for g h D covers_box overlaps
    using S1 by (rule leaves_determinate_on_node)
      (rule leaves_determinate_adjoin_lower_approximation_open_node)
  from Inr res assms S1 overt opn show ?thesis
    by (simp add: adjoin_lower_approximation_height_def Let_def split: option.splits)
qed

lemma leaves_determinate_adjoin_lower_approximation_box:
  assumes "adjoin_lower_approximation_box S theSet theBoundingBox numSubdivInDim = Some result"
    and "leaves_determinate (p_root_tree_node S)"
  shows "leaves_determinate (p_root_tree_node (paving_of result))"
  using assms leaves_determinate_adjoin_lower_approximation_height [OF assms(2)]
  by (auto simp add: adjoin_lower_approximation_box_def Let_def split: if_splits option.splits)

lemma leaves_determinate_adjoin_inner_approximation_height:
  assumes "leaves_determinate (p_root_tree_node S)"
  shows "leaves_determinate (p_root_tree_node
           (paving_of (adjoin_inner_approximation_height S theSet height numSubdivInDim)))"
proof (cases "align_with_cell S height True False False")
  case (Inl err)
  with assms show ?thesis by (simp add: adjoin_inner_approximation_height_def)
next
  case (Inr res)
  obtain S1 p stopped where res: "res = (S1, p, stopped)" by (cases res) auto
  from Inr res assms have S1: "leaves_determinate (p_root_tree_node S1)"
    by (auto dest: leaves_determinate_align_with_cell)
  have inner: "leaves_determinate (p_root_tree_node (paving_of (on_node p
      (\<lambda>n. adjoin_inner_approximation_node g n h D theSet []) S1)))" for g h D
    using S1 by (rule leaves_determinate_on_node)
      (rule leaves_determinate_adjoin_inner_approximation_node)
  from Inr res assms S1 inner show ?thesis
    by (simp add: adjoin_inner_approximation_height_def Let_def)
qed

lemma leaves_determinate_adjoin_inner_approximation_box:
  assumes "adjoin_inner_approximation_box S theSet theBoundingBox numSubdivInDim = Some result"
    and "leaves_determinate (p_root_tree_node S)"
  shows "leaves_determinate (p_root_tree_node (paving_of result))"
  using assms leaves_determinate_adjoin_inner_approximation_height [OF assms(2)]
  by (auto simp add: adjoin_inner_approximation_box_def Let_def split: if_splits option.splits)

lemma leaves_determinate_with_open_set:
  assumes "leaves_determinate (p_root_tree_node S)"
    and "\<And>g n h D p n'. recursion g n h D theSet p = Inr n' \<Longrightarrow> leaves_determinate n
           \<Longrightarrow> leaves_determinate n'"
  shows "leaves_determinate (p_root_tree_node (paving_of (with_open_set recursion S theSet)))"
  using assms(1) leaves_determinate_on_node [OF assms(1),
      of "\<lambda>n. recursion (the_grid (the_grid_cell S)) n (the_height (the_grid_cell S))
                 (depth (p_root_tree_node S)) theSet []" "[]"] assms(2)
  by (simp add: with_open_set_def Let_def)

lemma leaves_determinate_with_checker:
  assumes "leaves_determinate (p_root_tree_node S)"
    and "\<And>g n h D p n'. recursion g n h D check p = Inr n' \<Longrightarrow> leaves_determinate n
           \<Longrightarrow> leaves_determinate n'"
  shows "leaves_determinate (p_root_tree_node
           (paving_of (with_checker recursion S check accuracy)))"
  using assms(1) leaves_determinate_on_node [OF assms(1),
      of "\<lambda>n. recursion (the_grid (the_grid_cell S)) n (the_height (the_grid_cell S))
                 (zero_cell_subdivisions_to_tree_subdivisions
                    (dimension (the_grid (the_grid_cell S))) accuracy
                    (the_height (the_grid_cell S)) 0) check []" "[]"] assms(2)
  by (simp add: with_checker_def Let_def)

lemma leaves_determinate_import_from_file_leaf:
  assumes "import_from_file S fs filename = Some imported"
    and "file_contents fs filename = Some fl"
    and "is_leaf (p_root_tree_node S) \<or> leaves_determinate (p_root_tree_node S)"
  shows "leaves_determinate (p_root_tree_node (imported_paving imported))"
proof -
  from assms(1,2) obtain newRoot rest where
    read: "add_enabled_from_file (p_root_tree_node S) fl = Some (newRoot, rest)"
    by (auto simp add: import_from_file_def split: option.splits)
  from leaves_determinate_add_enabled_from_file [OF read] assms(3)
  have "leaves_determinate newRoot" by simp
  with assms(1,2) read show ?thesis
    by (auto simp add: import_from_file_def Let_def split: prod.splits if_splits)
qed

lemma leaves_determinate_import_from_file:
  assumes "import_from_file S fs filename = Some imported"
    and "leaves_determinate (p_root_tree_node S)"
  shows "leaves_determinate (p_root_tree_node (imported_paving imported))"
proof (cases "file_contents fs filename")
  case None
  with assms show ?thesis by (auto simp add: import_from_file_def)
next
  case (Some fl)
  with assms show ?thesis by (simp add: leaves_determinate_import_from_file_leaf)
qed

lemma is_leaf_export_to_file:
  "is_leaf (p_root_tree_node (fst (export_to_file S fs filename)))"
  by (simp add: export_to_file_def set_unknown_unchecked_def split: prod.splits)

lemma leaves_determinate_join:
  assumes "join theSet1 theSet2 = Inr resultSet"
    and "leaves_determinate (p_root_tree_node theSet1)"
    and "leaves_determinate (p_root_tree_node theSet2)"
  shows "leaves_determinate (p_root_tree_node resultSet)"
proof -
  let ?h = "if the_height (the_grid_cell theSet1) < the_height (the_grid_cell theSet2)
            then the_height (the_grid_cell theSet2) else the_height (the_grid_cell theSet1)"
  let ?new = "new_GridTreeSet (the_grid (the_grid_cell theSet1)) ?h False"
  from assms(1) obtain resultSet1 where
    one: "adjoin_subset ?new theSet1 = Inr resultSet1"
    and two: "adjoin_subset resultSet1 theSet2 = Inr resultSet"
    by (auto simp add: join_def Let_def split: if_splits sum.splits)
  from leaves_determinate_adjoin_subset [OF leaves_determinate_new_GridTreeSet assms(2),
      of "the_grid (the_grid_cell theSet1)" ?h False] one
  have "leaves_determinate (p_root_tree_node resultSet1)" by simp
  from leaves_determinate_adjoin_subset [OF this assms(3)] two show ?thesis by simp
qed

lemma leaves_determinate_intersection:
  assumes "intersection theSet1 theSet2 = Inr resultSet"
    and "leaves_determinate (p_root_tree_node theSet1)"
    and "leaves_determinate (p_root_tree_node theSet2)"
  shows "leaves_determinate (p_root_tree_node resultSet)"
proof -
  let ?h = "if the_height (the_grid_cell theSet1) < the_height (the_grid_cell theSet2)
            then the_height (the_grid_cell theSet2) else the_height (the_grid_cell theSet1)"
  let ?new = "new_GridTreeSet (the_grid (the_grid_cell theSet1)) ?h False"
  from assms(1) obtain resultSet1 where
    one: "adjoin_subset ?new theSet1 = Inr resultSet1"
    and two: "restrict_subset resultSet1 theSet2 = Inr resultSet"
    by (auto simp add: intersection_def Let_def split: if_splits sum.splits)
  from leaves_determinate_adjoin_subset [OF leaves_determinate_new_GridTreeSet assms(2),
      of "the_grid (the_grid_cell theSet1)" ?h False] one
  have "leaves_determinate (p_root_tree_node resultSet1)" by simp
  from leaves_determinate_restrict_subset [OF this assms(3)] two show ?thesis by simp
qed

lemma leaves_determinate_difference:
  assumes "difference theSet1 theSet2 = Inr resultSet"
    and "leaves_determinate (p_root_tree_node theSet1)"
    and "leaves_determinate (p_root_tree_node theSet2)"
  shows "leaves_determinate (p_root_tree_node resultSet)"
proof -
  let ?h = "if the_height (the_grid_cell theSet1) < the_height (the_grid_cell theSet2)
            then the_height (the_grid_cell theSet2) else the_height (the_grid_cell theSet1)"
  let ?new = "new_GridTreeSet (the_grid (the_grid_cell theSet1)) ?h False"
  from assms(1) obtain resultSet1 where
    one: "adjoin_subset ?new theSet1 = Inr resultSet1"
    and two: "remove_subset resultSet1 theSet2 = Inr resultSet"
    by (auto simp add: difference_def Let_def split: if_splits sum.splits)
  from leaves_determinate_adjoin_subset [OF leaves_determinate_new_GridTreeSet assms(2),
      of "the_grid (the_grid_cell theSet1)" ?h False] one
  have "leaves_determinate (p_root_tree_node resultSet1)" by simp
  from leaves_determinate_remove_subset [OF this assms(3)] two show ?thesis by simp
qed

text \<open>
  C6 fails as stated: after \<^verbatim>\<open>export_to_file\<close> on a new empty paving the tree is a single
  leaf that carries the indeterminate value.
\<close>

theorem export_to_file_leaves_indeterminate_leaf:
  "p_root_tree_node (fst (export_to_file
       (new_GridTreeSet \<lparr>origin = [0, 0], lengths = [1, 1]\<rparr> 0 False)
       \<lparr>file_contents = Map.empty, undeletable = {}\<rparr> ''paving''))
     = Leaf indeterminate_value
   \<and> \<not> leaves_determinate (p_root_tree_node (fst (export_to_file
       (new_GridTreeSet \<lparr>origin = [0, 0], lengths = [1, 1]\<rparr> 0 False)
       \<lparr>file_contents = Map.empty, undeletable = {}\<rparr> ''paving'')))"
  by (simp add: export_to_file_def new_GridTreeSet_def set_unknown_unchecked_def
        indeterminate_def split: prod.splits)

text \<open>
  C6, amended.  In every paving reachable from a newly constructed one by the public
  operations (adjoining and removing cells and subsets, restricting, mincing, recombining,
  the outer, over, lower and inner approximations, the restrictions and removals driven by
  a set or a checker, import from a file, join, intersection and difference), whether they
  return or raise, no leaf of the tree carries the indeterminate value; \<^verbatim>\<open>export_to_file\<close>
  counts as an operation only together with the import from an existing file that follows
  it.
\<close>

theorem reachable_leaves_determinate:
  "reachable S \<Longrightarrow> leaves_determinate (p_root_tree_node S)"
proof (induction rule: reachable.induct)
  case (constructed theGrid theHeight enable)
  show ?case by (rule leaves_determinate_new_GridTreeSet)
next
  case (by_adjoin_cell S theCell)
  then show ?case by (simp add: leaves_determinate_adjoin_cell)
next
  case (by_adjoin_subset S other p)
  then show ?case by (simp add: leaves_determinate_adjoin_subset leaves_determinate_subset_at)
next
  case (by_remove_cell S theCell)
  then show ?case by (simp add: leaves_determinate_remove_cell)
next
  case (by_remove_subset S other p)
  then show ?case by (simp add: leaves_determinate_remove_subset leaves_determinate_subset_at)
next
  case (by_restrict_subset S other p)
  then show ?case by (simp add: leaves_determinate_restrict_subset leaves_determinate_subset_at)
next
  case (by_restrict_to_height S theHeight)
  then show ?case by (simp add: leaves_determinate_restrict_to_height)
next
  case (by_clear S)
  show ?case unfolding clear_def by (rule leaves_determinate_new_GridTreeSet)
next
  case (by_mince_to_tree_depth S theNewDepth)
  then show ?case by (simp add: mince_to_tree_depth_def leaves_determinate_mince_node)
next
  case (by_recombine S)
  then show ?case by (simp add: recombine_def leaves_determinate_recombine_node)
next
  case (by_adjoin_outer_approximation S theSet numSubdivInDim result)
  from this(2) this(3) show ?case by (rule leaves_determinate_adjoin_outer_approximation)
next
  case (by_adjoin_over_approximation S as_set theBox numSubdivInDim result)
  from this(2) this(3) show ?case by (rule leaves_determinate_adjoin_over_approximation)
next
  case (by_adjoin_lower_approximation_height S overtSet height numSubdivInDim)
  then show ?case by (simp add: leaves_determinate_adjoin_lower_approximation_height)
next
  case (by_adjoin_lower_approximation_box S overtSet theBoundingBox numSubdivInDim result)
  from this(2) this(3) show ?case by (rule leaves_determinate_adjoin_lower_approximation_box)
next
  case (by_adjoin_inner_approximation_height S openSet height numSubdivInDim)
  then show ?case by (simp add: leaves_determinate_adjoin_inner_approximation_height)
next
  case (by_adjoin_inner_approximation_box S openSet theBoundingBox numSubdivInDim result)
  from this(2) this(3) show ?case by (rule leaves_determinate_adjoin_inner_approximation_box)
next
  case (by_outer_restrict_open S openSet)
  from this(2) show ?case unfolding outer_restrict_open_def outer_restrict_open_node_def
    by (rule leaves_determinate_with_open_set)
       (rule leaves_determinate_restrict_remove_body [OF leaves_determinate_leave_node])
next
  case (by_inner_restrict_open S openSet)
  from this(2) show ?case unfolding inner_restrict_open_def inner_restrict_open_node_def
    by (rule leaves_determinate_with_open_set)
       (rule leaves_determinate_restrict_remove_body [OF leaves_determinate_disable_node])
next
  case (by_outer_remove_open S openSet)
  from this(2) show ?case unfolding outer_remove_open_def outer_remove_open_node_def
    by (rule leaves_determinate_with_open_set)
       (rule leaves_determinate_restrict_remove_body [OF leaves_determinate_disable_node])
next
  case (by_inner_remove_open S openSet)
  from this(2) show ?case unfolding inner_remove_open_def inner_remove_open_node_def
    by (rule leaves_determinate_with_open_set)
       (rule leaves_determinate_restrict_remove_body [OF leaves_determinate_leave_node])
next
  case (by_outer_restrict_checker S check accuracy)
  from this(2) show ?case unfolding outer_restrict_checker_def outer_restrict_checker_node_def
    by (rule leaves_determinate_with_checker)
       (rule leaves_determinate_restrict_remove_body [OF leaves_determinate_leave_node])
next
  case (by_inner_restrict_checker S check accuracy)
  from this(2) show ?case unfolding inner_restrict_checker_def inner_restrict_checker_node_def
    by (rule leaves_determinate_with_checker)
       (rule leaves_determinate_restrict_remove_body [OF leaves_determinate_disable_node])
next
  case (by_outer_remove_checker S check accuracy)
  from this(2) show ?case unfolding outer_remove_checker_def outer_remove_checker_node_def
    by (rule leaves_determinate_with_checker)
       (rule leaves_determinate_restrict_remove_body [OF leaves_determinate_disable_node])
next
  case (by_inner_remove_checker S check accuracy)
  from this(2) show ?case unfolding inner_remove_checker_def inner_remove_checker_node_def
    by (rule leaves_determinate_with_checker)
       (rule leaves_determinate_restrict_remove_body [OF leaves_determinate_leave_node])
next
  case (by_import_from_file S fs filename imported)
  from this(2) this(3) show ?case by (rule leaves_determinate_import_from_file)
next
  case (by_export_then_import S fs' filename' fs filename imported)
  from this(2) obtain fl where "file_contents fs' filename' = Some fl" by blast
  with by_export_then_import(3) show ?case
    by (rule leaves_determinate_import_from_file_leaf) (simp add: is_leaf_export_to_file)
next
  case (by_join S1 p1 S2 p2 resultSet)
  from this(5) show ?case
    by (rule leaves_determinate_join)
       (simp_all add: by_join.IH leaves_determinate_subset_at)
next
  case (by_intersection S1 p1 S2 p2 resultSet)
  from this(5) show ?case
    by (rule leaves_determinate_intersection)
       (simp_all add: by_intersection.IH leaves_determinate_subset_at)
next
  case (by_difference S1 p1 S2 p2 resultSet)
  from this(5) show ?case
    by (rule leaves_determinate_difference)
       (simp_all add: by_difference.IH leaves_determinate_subset_at)
qed

theorem reachable_leaves_determinate_witness:
  "reachable (paving_of (adjoin_cell
       (new_GridTreeSet \<lparr>origin = [0, 0], lengths = [1, 1]\<rparr> 0 False)
       \<lparr>the_grid = \<lparr>origin = [0, 0], lengths = [1, 1]\<rparr>, the_height = 0,
        the_word = [True, False]\<rparr>))
   \<and> p_root_tree_node (paving_of (adjoin_cell
       (new_GridTreeSet \<lparr>origin = [0, 0], lengths = [1, 1]\<rparr> 0 False)
       \<lparr>the_grid = \<lparr>origin = [0, 0], lengths = [1, 1]\<rparr>, the_height = 0,
        the_word = [True, False]\<rparr>))
     = Node indeterminate_value (Leaf false_value)
         (Node indeterminate_value (Leaf true_value) (Leaf false_value))
   \<and> leaves_determinate (p_root_tree_node (paving_of (adjoin_cell
       (new_GridTreeSet \<lparr>origin = [0, 0], lengths = [1, 1]\<rparr> 0 False)
       \<lparr>the_grid = \<lparr>origin = [0, 0], lengths = [1, 1]\<rparr>, the_height = 0,
        the_word = [True, False]\<rparr>)))"
proof -
  let ?S = "paving_of (adjoin_cell
       (new_GridTreeSet \<lparr>origin = [0, 0], lengths = [1, 1]\<rparr> 0 False)
       \<lparr>the_grid = \<lparr>origin = [0, 0], lengths = [1, 1]\<rparr>, the_height = 0,
        the_word = [True, False]\<rparr>)"
  have r: "reachable ?S" by (intro reachable.by_adjoin_cell reachable.constructed)
  have e: "p_root_tree_node ?S
     = Node indeterminate_value (Leaf false_value)
         (Node indeterminate_value (Leaf true_value) (Leaf false_value))"
    by (simp add: adjoin_cell_def align_with_cell_def new_GridTreeSet_def Let_def
          set_enabled_def is_enabled_def definitely_def tribool_of_bool_def)
  from r e reachable_leaves_determinate [OF r] show ?thesis by (intro conjI)
qed

end

